theory Spec2Isabelle
  imports Complex_Main
begin

section \<open>Python and numpy values\<close>

text \<open>
  The exceptions the modelled code can raise. A call that raises returns \<open>Inl\<close> of
  the exception, a call that returns a value returns \<open>Inr\<close> of it.
\<close>

datatype pyerror =
    UnboundLocalError
  | IndexError
  | AttributeError
  | TypeError
  | NotImplementedError
  | AxisError
  | MaskError
  | OverflowError
  | ValueError
  | UnitConversionError

definition bind_err :: "pyerror + 'a \<Rightarrow> ('a \<Rightarrow> pyerror + 'b) \<Rightarrow> pyerror + 'b" where
  "bind_err m f = (case m of Inl e \<Rightarrow> Inl e | Inr x \<Rightarrow> f x)"

text \<open>\<open>xs[-1]\<close> and \<open>xs[i]\<close> for a constant non-negative \<open>i\<close>: IndexError out of range.\<close>

definition py_last :: "'a list \<Rightarrow> pyerror + 'a" where
  "py_last xs = (case xs of [] \<Rightarrow> Inl IndexError | _ # _ \<Rightarrow> Inr (last xs))"

definition py_nth :: "'a list \<Rightarrow> nat \<Rightarrow> pyerror + 'a" where
  "py_nth xs i = (if i < length xs then Inr (xs ! i) else Inl IndexError)"

text \<open>
  An index given by the caller may be negative: it then counts from the end of the axis.
\<close>

definition norm_index :: "int \<Rightarrow> nat \<Rightarrow> pyerror + nat" where
  "norm_index i n =
     (if 0 \<le> i \<and> i < int n then Inr (nat i)
      else if - int n \<le> i \<and> i < 0 then Inr (nat (i + int n))
      else Inl IndexError)"

text \<open>
  A numpy array is a shape and a buffer in row-major order. The numbers of an array are
  real numbers: the floating-point rounding of the arithmetic on the data is not
  modelled. It is modelled where the code builds an axis with \<open>np.arange\<close>, whose
  length depends on it.
\<close>

datatype 'a ndarray = NDArray (shape: "nat list") (flat: "'a list")

definition size_of :: "nat list \<Rightarrow> nat" where
  "size_of s = prod_list s"

definition ndim :: "'a ndarray \<Rightarrow> nat" where
  "ndim a = length (shape a)"

definition shape_at :: "'a ndarray \<Rightarrow> nat \<Rightarrow> pyerror + nat" where
  "shape_at a i = py_nth (shape a) i"

text \<open>\<open>np.empty(shape); new.fill(v)\<close>\<close>

definition np_full :: "nat list \<Rightarrow> 'a \<Rightarrow> 'a ndarray" where
  "np_full s v = NDArray s (replicate (size_of s) v)"

subsection \<open>\<open>np.arange\<close> on binary64 numbers\<close>

text \<open>
  Rounding of a real number to the nearest binary64 number, ties to even, for the normal
  range of exponents (overflow and subnormal numbers are not modelled).
\<close>

definition round_half_even :: "real \<Rightarrow> int" where
  "round_half_even x =
     (let f = \<lfloor>x\<rfloor>; d = x - of_int f
      in if d < 1 / 2 then f
         else if 1 / 2 < d then f + 1
         else if even f then f else f + 1)"

definition f64_round :: "real \<Rightarrow> real" where
  "f64_round x =
     (if x = 0 then 0
      else let e = \<lfloor>log 2 \<bar>x\<bar>\<rfloor>; u = 2 powr (of_int e - 52)
           in u * of_int (round_half_even (x / u)))"

definition f64_add :: "real \<Rightarrow> real \<Rightarrow> real" where
  "f64_add a b = f64_round (a + b)"

definition f64_sub :: "real \<Rightarrow> real \<Rightarrow> real" where
  "f64_sub a b = f64_round (a - b)"

definition f64_mul :: "real \<Rightarrow> real \<Rightarrow> real" where
  "f64_mul a b = f64_round (a * b)"

text \<open>The quotient by a nonzero number; the callers test the divisor first.\<close>

definition f64_div :: "real \<Rightarrow> real \<Rightarrow> real" where
  "f64_div a b = f64_round (a / b)"

text \<open>
  \<open>np.arange(start, stop)\<close> on floats: the length is the ceiling of the rounded
  difference, the values are \<open>start + i\<close>.
\<close>

definition np_arange :: "real \<Rightarrow> real \<Rightarrow> real list" where
  "np_arange start stop =
     map (\<lambda>i. start + real i) [0..<nat \<lceil>f64_round (stop - start)\<rceil>]"

text \<open>\<open>np.arange(n)\<close> on an integer.\<close>

definition np_arange_n :: "nat \<Rightarrow> real list" where
  "np_arange_n n = map real [0..<n]"

text \<open>
  \<open>np.arange(start, stop, step)\<close> on binary64 numbers. The length is the ceiling of
  the quotient of the difference by the step, each of them rounded. With a zero step the
  quotient is not a number when the difference is zero, and numpy raises ValueError; it
  is infinite otherwise, and numpy raises OverflowError. The first two values are
  \<open>start\<close> and \<open>start + step\<close>, and value \<open>i\<close> is \<open>start + i * delta\<close>, where
  \<open>delta\<close> is the difference of the first two, every operation rounded. A quotient
  beyond the range of an index, which needs more samples than an array can have, is not
  modelled.
\<close>

definition np_arange3 :: "real \<Rightarrow> real \<Rightarrow> real \<Rightarrow> pyerror + real list" where
  "np_arange3 start stop step =
     (let d = f64_sub stop start
      in if step = 0 then (if d = 0 then Inl ValueError else Inl OverflowError)
         else
           let next = f64_add start step;
               delta = f64_sub next start
           in Inr (map (\<lambda>i. if i = 0 then start
                           else if i = 1 then next
                           else f64_add start (f64_mul (real i) delta))
                       [0..<nat \<lceil>f64_div d step\<rceil>]))"

text \<open>
  \<open>start + step * n\<close> for an axis of \<open>n\<close> samples, as lines 205, 311 and 317
  compute the end of a range: the integer becomes a binary64 number, and the product
  and the sum are rounded.
\<close>

definition axis_stop :: "real \<Rightarrow> real \<Rightarrow> nat \<Rightarrow> real" where
  "axis_stop start step n = f64_add start (f64_mul step (f64_round (real n)))"

section \<open>The data model\<close>

text \<open>
  The coordinate mapping: the fields of \<open>wcs.wcs\<close> that the code reads. \<open>cd\<close> is
  absent when the mapping has no CD matrix, and reading it then raises AttributeError.
\<close>

record wcsprm =
  crpix :: "real list"
  crval :: "real list"
  cdelt :: "real list"
  cunit :: "string list"
  ctype :: "string list"
  cd :: "real list list option"

text \<open>An uncertainty object: its class and its array.\<close>

datatype uncert = Uncert (uncertainty_class: string) (array: "real ndarray")

text \<open>A masked array (\<open>np.ma.masked_array\<close>): the data and the mask of excluded elements.\<close>

datatype masked = Masked (ma_data: "real ndarray") (ma_mask: "bool ndarray")

text \<open>
  What a container's \<open>mask\<close> attribute holds: a boolean array, or whatever object the
  code stored there (\<open>SpectrumData.collapse\<close> stores a masked array of numbers).
\<close>

datatype maskval = BoolMask "bool ndarray" | ArrayMask masked

text \<open>A quantity (\<open>u.Quantity\<close>): numbers and a unit; the empty unit is dimensionless.\<close>

datatype quantity = Quantity (q_value: "real ndarray") (q_unit: string)

definition as_unit :: "string option \<Rightarrow> string" where
  "as_unit u = (case u of None \<Rightarrow> [] | Some s \<Rightarrow> s)"

text \<open>The attributes of \<open>NDData\<close>, which are also the keyword arguments of its constructor.\<close>

record nddata =
  data :: "real ndarray"
  uncertainty :: "uncert option"
  mask :: "maskval option"
  wcs :: "wcsprm option"
  meta :: "(string \<times> string) list"
  unit :: "string option"

record spectrumdata = nddata +
  dispersion :: quantity
  cross_dispersion :: "quantity option"
  flux :: quantity
  error :: "quantity option"

section \<open>SpectrumData\<close>

text \<open>
  The candidate index sequence of \<open>SpectrumData.__init__\<close> (lines 183 to 187): the
  range from the reference pixel, replaced by \<open>0..N-1\<close> when its size is not \<open>N\<close>.
\<close>

definition disp_candidate :: "real \<Rightarrow> nat \<Rightarrow> real list" where
  "disp_candidate p n =
     (let disp_data = np_arange p (f64_add p (real n))
      in if length disp_data \<noteq> n then np_arange_n n else disp_data)"

text \<open>Lines 189 to 192: the unit of the dispersion.\<close>

definition disp_unit_of :: "wcsprm \<Rightarrow> pyerror + string" where
  "disp_unit_of w =
     (if length (cunit w) = 3 then py_last (cunit w) else py_nth (cunit w) 0)"

text \<open>Lines 194 to 198: the logarithmic wavelength axis.\<close>

definition wave_log :: "wcsprm \<Rightarrow> real list \<Rightarrow> pyerror + real list" where
  "wave_log w disp_data =
     bind_err (py_last (ctype w)) (\<lambda>t.
       if t = ''WAVE-LOG'' then
         bind_err (py_nth (crval w) 2) (\<lambda>v.
         bind_err (case cd w of None \<Rightarrow> Inl AttributeError | Some m \<Rightarrow> Inr m) (\<lambda>m.
         bind_err (py_nth m 2) (\<lambda>row.
         bind_err (py_nth row 2) (\<lambda>c.
         bind_err (py_nth (crpix w) 2) (\<lambda>p.
           Inr (map (\<lambda>d. v * exp (c * (d - p) / v)) disp_data))))))
       else Inr disp_data)"

text \<open>Lines 200 to 208: the second axis, when the data has one.\<close>

definition cross_disp :: "wcsprm \<Rightarrow> real ndarray \<Rightarrow> pyerror + quantity option" where
  "cross_disp w d =
     (if ndim d > 1 then
        bind_err (py_nth (crval w) 1) (\<lambda>c_start.
        bind_err (py_nth (cdelt w) 1) (\<lambda>c_step.
        bind_err (shape_at d 1) (\<lambda>n1.
        bind_err (np_arange3 c_start (axis_stop c_start c_step n1) c_step) (\<lambda>xs.
        bind_err (py_nth (cunit w) 1) (\<lambda>cu.
          Inr (Some (Quantity (NDArray [length xs] xs) cu)))))))
      else Inr None)"

text \<open>
  \<open>SpectrumData.__init__\<close>. Without a coordinate mapping the body of the \<open>if\<close> is
  skipped, and line 211 reads \<open>disp_data\<close>, which was never assigned.
\<close>

definition SpectrumData_init :: "nddata \<Rightarrow> pyerror + spectrumdata" where
  "SpectrumData_init nd =
     (case wcs nd of
        None \<Rightarrow> Inl UnboundLocalError
      | Some w \<Rightarrow>
          bind_err (py_last (crpix w)) (\<lambda>p.
          bind_err (shape_at (data nd) 0) (\<lambda>n.
          bind_err (disp_unit_of w) (\<lambda>disp_unit.
          bind_err (wave_log w (disp_candidate p n)) (\<lambda>disp_data.
          bind_err (cross_disp w (data nd)) (\<lambda>cross.
            Inr \<lparr> data = data nd, uncertainty = uncertainty nd, mask = mask nd,
                  wcs = wcs nd, meta = meta nd, unit = unit nd,
                  dispersion = Quantity (NDArray [length disp_data] disp_data) disp_unit,
                  cross_dispersion = cross,
                  flux = Quantity (data nd) (as_unit (unit nd)),
                  error = (case uncertainty nd of
                             None \<Rightarrow> None
                           | Some u \<Rightarrow> Some (Quantity (array u) (as_unit (unit nd)))) \<rparr>))))))"

section \<open>Masked arrays and reductions\<close>

text \<open>\<open>~m\<close> and \<open>np.logical_not(m)\<close> on a boolean array.\<close>

definition logical_not :: "bool ndarray \<Rightarrow> bool ndarray" where
  "logical_not m = NDArray (shape m) (map Not (flat m))"

text \<open>
  \<open>np.ma.masked_array(d, mask=m)\<close>. The mask \<open>None\<close> is read as the single value
  False. A mask of another shape is resized when it has one element, reshaped when it
  has as many elements as the data, and refused otherwise.
\<close>

definition masked_array :: "real ndarray \<Rightarrow> bool ndarray option \<Rightarrow> pyerror + masked" where
  "masked_array d m =
     (case m of
        None \<Rightarrow> Inr (Masked d (np_full (shape d) False))
      | Some b \<Rightarrow>
          if shape b = shape d then Inr (Masked d b)
          else if length (flat b) = 1 then Inr (Masked d (np_full (shape d) (hd (flat b))))
          else if length (flat b) = length (flat d) then Inr (Masked d (NDArray (shape d) (flat b)))
          else Inl MaskError)"

text \<open>
  The boolean array numpy reads from the \<open>mask\<close> attribute of a container: of a masked
  array of numbers it takes the numbers, nonzero meaning True.
\<close>

definition mask_as_bool :: "maskval \<Rightarrow> bool ndarray" where
  "mask_as_bool v =
     (case v of
        BoolMask b \<Rightarrow> b
      | ArrayMask m \<Rightarrow> NDArray (shape (ma_data m)) (map (\<lambda>x. x \<noteq> 0) (flat (ma_data m))))"

definition norm_axis :: "int \<Rightarrow> nat \<Rightarrow> pyerror + nat" where
  "norm_axis i n =
     (if 0 \<le> i \<and> i < int n then Inr (nat i)
      else if - int n \<le> i \<and> i < 0 then Inr (nat (i + int n))
      else Inl AxisError)"

text \<open>
  The lanes of a row-major buffer along an axis, in the order of the reduced array:
  element \<open>j\<close> of the lane at \<open>(o, i)\<close> is at offset \<open>(o * n + j) * inner + i\<close>.
\<close>

definition lanes :: "nat list \<Rightarrow> nat \<Rightarrow> 'a list \<Rightarrow> 'a list list" where
  "lanes s ax xs =
     (let n = s ! ax; outer = prod_list (take ax s); inner = prod_list (drop (Suc ax) s)
      in concat (map (\<lambda>oi. map (\<lambda>i. map (\<lambda>j. xs ! ((oi * n + j) * inner + i)) [0..<n])
                                 [0..<inner])
                     [0..<outer]))"

definition kept :: "real list \<Rightarrow> bool list \<Rightarrow> real list" where
  "kept vs ms = map fst (filter (\<lambda>vm. \<not> snd vm) (zip vs ms))"

text \<open>
  A reduction of a masked array along an axis: \<open>f\<close> reduces the elements of a lane that
  are not masked, and the result is masked where a lane has none.
\<close>

definition ma_reduce :: "(real list \<Rightarrow> real) \<Rightarrow> masked \<Rightarrow> int \<Rightarrow> pyerror + masked" where
  "ma_reduce f m axis =
     bind_err (norm_axis axis (ndim (ma_data m))) (\<lambda>ax.
       let s = shape (ma_data m);
           s' = take ax s @ drop (Suc ax) s;
           ks = map2 kept (lanes s ax (flat (ma_data m))) (lanes s ax (flat (ma_mask m)))
       in Inr (Masked (NDArray s' (map f ks)) (NDArray s' (map (\<lambda>k. k = []) ks))))"

text \<open>The value stored under a masked result is 0.\<close>

definition mean_of :: "real list \<Rightarrow> real" where
  "mean_of k = (if k = [] then 0 else sum_list k / real (length k))"

definition median_of :: "real list \<Rightarrow> real" where
  "median_of k =
     (let xs = sort k; n = length xs
      in if n = 0 then 0
         else if odd n then xs ! (n div 2)
         else (xs ! (n div 2 - 1) + xs ! (n div 2)) / 2)"

definition ma_mean :: "masked \<Rightarrow> int \<Rightarrow> pyerror + masked" where
  "ma_mean = ma_reduce mean_of"

definition ma_sum :: "masked \<Rightarrow> int \<Rightarrow> pyerror + masked" where
  "ma_sum = ma_reduce sum_list"

text \<open>\<open>np.ma.median(m, axis=axis)\<close>, the function of the \<open>np.ma\<close> module.\<close>

definition np_ma_median :: "masked \<Rightarrow> int \<Rightarrow> pyerror + masked" where
  "np_ma_median = ma_reduce median_of"

text \<open>
  \<open>m.median(axis=axis)\<close>: a masked array has no method of this name, so the attribute
  lookup raises.
\<close>

definition ma_median_method :: "masked \<Rightarrow> int \<Rightarrow> pyerror + masked" where
  "ma_median_method m axis = Inl AttributeError"

text \<open>
  \<open>a[start:stop]\<close> on one axis of length \<open>n\<close>: the bounds are moved into \<open>0..n\<close>,
  negative ones counting from the end.
\<close>

definition slice_bound :: "int \<Rightarrow> nat \<Rightarrow> nat" where
  "slice_bound i n = (if i < 0 then nat (max 0 (i + int n)) else min (nat i) n)"

text \<open>\<open>m[slice(start, stop), :, :]\<close>: three indices need three axes.\<close>

definition slice_axis0 :: "'a ndarray \<Rightarrow> int \<times> int \<Rightarrow> pyerror + 'a ndarray" where
  "slice_axis0 a r =
     (case shape a of
        n # rest \<Rightarrow>
          if length rest < 2 then Inl IndexError
          else let lo = slice_bound (fst r) n; hi = max lo (slice_bound (snd r) n);
                   inner = prod_list rest
               in Inr (NDArray ((hi - lo) # rest)
                               (take ((hi - lo) * inner) (drop (lo * inner) (flat a))))
      | [] \<Rightarrow> Inl IndexError)"

definition ma_slice_axis0 :: "masked \<Rightarrow> int \<times> int \<Rightarrow> pyerror + masked" where
  "ma_slice_axis0 m r =
     bind_err (slice_axis0 (ma_data m) r) (\<lambda>d.
     bind_err (slice_axis0 (ma_mask m) r) (\<lambda>b. Inr (Masked d b)))"

text \<open>
  \<open>a[:, i, j]\<close>: the elements \<open>a[k, i, j]\<close> for every \<open>k\<close>, at offset
  \<open>(k * H + i) * W + j\<close> of an array of shape \<open>(N, H, W)\<close> (each element is itself an
  array when there are more than three axes).
\<close>

definition index_12 :: "'a ndarray \<Rightarrow> int \<Rightarrow> int \<Rightarrow> pyerror + 'a ndarray" where
  "index_12 a i j =
     (case shape a of
        n # h # w # rest \<Rightarrow>
          bind_err (norm_index i h) (\<lambda>i'.
          bind_err (norm_index j w) (\<lambda>j'.
            let inner = prod_list rest
            in Inr (NDArray (n # rest)
                     (concat (map (\<lambda>k. take inner (drop (((k * h + i') * w + j') * inner) (flat a)))
                                  [0..<n])))))
      | _ \<Rightarrow> Inl IndexError)"

definition uncert_index_12 :: "uncert \<Rightarrow> int \<Rightarrow> int \<Rightarrow> pyerror + uncert" where
  "uncert_index_12 u i j =
     bind_err (index_12 (array u) i j) (\<lambda>a. Inr (Uncert (uncertainty_class u) a))"

definition mask_index_12 :: "maskval \<Rightarrow> int \<Rightarrow> int \<Rightarrow> pyerror + maskval" where
  "mask_index_12 v i j =
     (case v of
        BoolMask b \<Rightarrow> bind_err (index_12 b i j) (\<lambda>b'. Inr (BoolMask b'))
      | ArrayMask m \<Rightarrow>
          bind_err (index_12 (ma_data m) i j) (\<lambda>d.
          bind_err (index_12 (ma_mask m) i j) (\<lambda>b. Inr (ArrayMask (Masked d b)))))"

section \<open>ImageData\<close>

text \<open>
  Without a coordinate mapping \<open>ImageData.__init__\<close> sets no axis, and the two
  attributes do not exist.
\<close>

record imagedata = nddata +
  image_dispersion :: "quantity option"
  image_cross_dispersion :: "quantity option"

definition image_axis :: "wcsprm \<Rightarrow> real ndarray \<Rightarrow> nat \<Rightarrow> pyerror + quantity" where
  "image_axis w d i =
     bind_err (py_nth (crval w) i) (\<lambda>start.
     bind_err (py_nth (cdelt w) i) (\<lambda>step.
     bind_err (shape_at d i) (\<lambda>n.
     bind_err (np_arange3 start (axis_stop start step n) step) (\<lambda>xs.
     bind_err (py_nth (cunit w) i) (\<lambda>cu.
       Inr (Quantity (NDArray [length xs] xs) cu))))))"

definition ImageData_init :: "nddata \<Rightarrow> pyerror + imagedata" where
  "ImageData_init nd =
     (case wcs nd of
        None \<Rightarrow>
          Inr \<lparr> data = data nd, uncertainty = uncertainty nd, mask = mask nd,
                wcs = wcs nd, meta = meta nd, unit = unit nd,
                image_dispersion = None, image_cross_dispersion = None \<rparr>
      | Some w \<Rightarrow>
          bind_err (image_axis w (data nd) 0) (\<lambda>d.
          bind_err (image_axis w (data nd) 1) (\<lambda>c.
            Inr \<lparr> data = data nd, uncertainty = uncertainty nd, mask = mask nd,
                  wcs = wcs nd, meta = meta nd, unit = unit nd,
                  image_dispersion = Some d, image_cross_dispersion = Some c \<rparr>)))"

section \<open>CubeData\<close>

text \<open>\<open>CubeData.get_spectrum(x, y)\<close>, lines 120 to 135.\<close>

definition get_spectrum :: "nddata \<Rightarrow> int \<Rightarrow> int \<Rightarrow> pyerror + spectrumdata" where
  "get_spectrum self x y =
     bind_err (index_12 (data self) y x) (\<lambda>new_data.
     bind_err (case uncertainty self of
                 None \<Rightarrow> Inr None
               | Some u \<Rightarrow> bind_err (uncert_index_12 u x y) (\<lambda>u'. Inr (Some u')))
       (\<lambda>new_uncertainty.
     bind_err (case mask self of
                 None \<Rightarrow> Inr None
               | Some v \<Rightarrow> bind_err (mask_index_12 v x y) (\<lambda>v'. Inr (Some v')))
       (\<lambda>new_mask.
       SpectrumData_init \<lparr> data = new_data, uncertainty = new_uncertainty, mask = new_mask,
                           wcs = wcs self, meta = meta self, unit = unit self \<rparr>)))"

text \<open>
  \<open>CubeData.collapse_to_spectrum(method, filter_mask)\<close>, lines 137 to 152. The mask is
  inverted first. A method that is neither mean nor median leaves \<open>new_mdata\<close>
  unassigned. The result is the spectrum and the inverted mask of the reduced data.
\<close>

definition collapse_to_spectrum ::
  "nddata \<Rightarrow> string \<Rightarrow> bool ndarray option \<Rightarrow> pyerror + spectrumdata \<times> bool ndarray" where
  "collapse_to_spectrum self method filter_mask =
     (case filter_mask of
        None \<Rightarrow> Inl TypeError
      | Some fm \<Rightarrow>
          bind_err (masked_array (data self) (Some (logical_not fm))) (\<lambda>mdata.
          bind_err (case uncertainty self of None \<Rightarrow> Inl AttributeError | Some u \<Rightarrow> Inr u) (\<lambda>u.
          bind_err (masked_array (array u) (Some (logical_not fm))) (\<lambda>udata.
          bind_err
            (if method = ''mean'' then
               bind_err (bind_err (ma_mean mdata 1) (\<lambda>m. ma_mean m 1)) (\<lambda>new_mdata.
               bind_err (bind_err (ma_mean udata 1) (\<lambda>m. ma_mean m 1)) (\<lambda>new_udata.
                 Inr (new_mdata, new_udata)))
             else if method = ''median'' then
               bind_err (bind_err (ma_median_method mdata 1) (\<lambda>m. ma_median_method m 1))
                 (\<lambda>new_mdata.
               bind_err (bind_err (ma_median_method udata 1) (\<lambda>m. ma_median_method m 1))
                 (\<lambda>new_udata.
                 Inr (new_mdata, new_udata)))
             else Inl UnboundLocalError)
            (\<lambda>new.
          bind_err (SpectrumData_init
                      \<lparr> data = ma_data (fst new),
                        uncertainty = Some (Uncert (uncertainty_class u) (ma_data (snd new))),
                        mask = Some (BoolMask (ma_mask udata)),
                        wcs = wcs self, meta = meta self, unit = unit self \<rparr>) (\<lambda>s.
            Inr (s, logical_not (ma_mask (fst new)))))))))"

text \<open>
  \<open>CubeData.collapse_to_image(wavelength_range, method, axis)\<close>, lines 154 to 173. The
  method mode assigns nothing, and line 172 then reads \<open>new_data\<close> unassigned.
\<close>

definition collapse_to_image ::
  "nddata \<Rightarrow> (int \<times> int) option \<Rightarrow> string \<Rightarrow> int \<Rightarrow> pyerror + imagedata" where
  "collapse_to_image self wavelength_range method axis =
     bind_err (masked_array (data self) (map_option mask_as_bool (mask self))) (\<lambda>mdata0.
     bind_err (case wavelength_range of
                 None \<Rightarrow> Inr mdata0
               | Some r \<Rightarrow> ma_slice_axis0 mdata0 r) (\<lambda>mdata.
     bind_err (if method = ''mean'' then ma_mean mdata axis
               else if method = ''median'' then np_ma_median mdata axis
               else if method = ''mode'' then Inl UnboundLocalError
               else Inl NotImplementedError) (\<lambda>new_data.
       ImageData_init \<lparr> data = ma_data new_data, uncertainty = None, mask = mask self,
                        wcs = wcs self, meta = meta self, unit = unit self \<rparr>)))"

section \<open>SpectrumData.collapse\<close>

text \<open>
  \<open>SpectrumData.collapse(method, axis, filter_mask)\<close>, lines 270 to 291. The reduced
  uncertainty, a masked array, is passed as the mask of the result.
\<close>

definition collapse ::
  "spectrumdata \<Rightarrow> string \<Rightarrow> int \<Rightarrow> bool ndarray option \<Rightarrow> pyerror + spectrumdata" where
  "collapse self method axis filter_mask =
     (let filter_mask' = map_option logical_not filter_mask
      in bind_err (masked_array (data self) filter_mask') (\<lambda>mdata.
         bind_err (case uncertainty self of None \<Rightarrow> Inl AttributeError | Some u \<Rightarrow> Inr u) (\<lambda>u.
         bind_err (masked_array (array u) filter_mask') (\<lambda>udata.
         bind_err
           (if method = ''mean'' then
              bind_err (ma_mean mdata axis) (\<lambda>new_mdata.
              bind_err (ma_mean udata axis) (\<lambda>new_udata. Inr (new_mdata, new_udata)))
            else if method = ''median'' then
              bind_err (ma_median_method mdata axis) (\<lambda>new_mdata.
              bind_err (ma_median_method udata axis) (\<lambda>new_udata. Inr (new_mdata, new_udata)))
            else if method = ''sum'' then
              bind_err (ma_sum mdata axis) (\<lambda>new_mdata.
              bind_err (ma_sum udata axis) (\<lambda>new_udata. Inr (new_mdata, new_udata)))
            else Inl UnboundLocalError)
           (\<lambda>new.
           SpectrumData_init
             \<lparr> data = ma_data (fst new),
               uncertainty = Some (Uncert (uncertainty_class u) (ma_data (snd new))),
               mask = Some (ArrayMask (snd new)),
               wcs = wcs self, meta = meta self, unit = unit self \<rparr>)))))"

section \<open>BaseData arithmetic\<close>

text \<open>The three concrete classes, and an instance of one of them.\<close>

datatype kind = Cube | Spectrum | Image

datatype basedata = CubeData nddata | SpectrumData spectrumdata | ImageData imagedata

definition kind_of :: "basedata \<Rightarrow> kind" where
  "kind_of a = (case a of CubeData _ \<Rightarrow> Cube | SpectrumData _ \<Rightarrow> Spectrum | ImageData _ \<Rightarrow> Image)"

definition base_of :: "basedata \<Rightarrow> nddata" where
  "base_of a =
     (case a of
        CubeData c \<Rightarrow> c
      | SpectrumData s \<Rightarrow> nddata.truncate s
      | ImageData i \<Rightarrow> nddata.truncate i)"

text \<open>\<open>type(self)(data, ...)\<close>: \<open>CubeData.__init__\<close> only calls the constructor of NDData.\<close>

definition construct :: "kind \<Rightarrow> nddata \<Rightarrow> pyerror + basedata" where
  "construct k nd =
     (case k of
        Cube \<Rightarrow> Inr (CubeData nd)
      | Spectrum \<Rightarrow> bind_err (SpectrumData_init nd) (\<lambda>s. Inr (SpectrumData s))
      | Image \<Rightarrow> bind_err (ImageData_init nd) (\<lambda>i. Inr (ImageData i)))"

datatype arith_op = Add | Subtract | Multiply | Divide

text \<open>The operation on two numbers; a division by zero raises nothing in numpy.\<close>

definition apply_op :: "arith_op \<Rightarrow> real \<Rightarrow> real \<Rightarrow> real" where
  "apply_op opr x y =
     (case opr of Add \<Rightarrow> x + y | Subtract \<Rightarrow> x - y | Multiply \<Rightarrow> x * y | Divide \<Rightarrow> x / y)"

text \<open>
  The unit and uncertainty services that the arithmetic consumes: the factor that
  converts a number of one unit into another unit (none when the units are not
  compatible), the unit of a result, the propagated uncertainty, the combined mask and
  the metadata of a result.
\<close>

record services =
  unit_factor :: "string option \<Rightarrow> string option \<Rightarrow> real option"
  unit_result :: "arith_op \<Rightarrow> string option \<Rightarrow> string option \<Rightarrow> string option"
  propagate :: "arith_op \<Rightarrow> nddata \<Rightarrow> nddata \<Rightarrow> real ndarray \<Rightarrow> pyerror + uncert option"
  combine_mask :: "maskval option \<Rightarrow> maskval option \<Rightarrow> pyerror + maskval option"
  combine_meta :: "(string \<times> string) list \<Rightarrow> (string \<times> string) list \<Rightarrow> (string \<times> string) list"

text \<open>
  Modelled from the spec: the methods \<open>add\<close>, \<open>subtract\<close>, \<open>multiply\<close> and
  \<open>divide\<close>, which BaseData inherits from \<open>NDArithmeticMixin\<close>, are not in the source.
  The spec: the two operands need compatible shapes; the operand's unit, uncertainty and
  mask are combined with the receiver's by the external services; the result is a new
  instance of the receiver's class, carrying the receiver's \<open>wcs\<close>.
\<close>

definition nd_arithmetic ::
  "services \<Rightarrow> arith_op \<Rightarrow> kind \<Rightarrow> nddata \<Rightarrow> nddata \<Rightarrow> pyerror + basedata" where
  "nd_arithmetic svc opr k self other =
     (if shape (data other) \<noteq> shape (data self) then Inl ValueError
      else
        bind_err (if (opr = Add \<or> opr = Subtract) \<and> unit other \<noteq> unit self
                  then (case unit_factor svc (unit other) (unit self) of
                          None \<Rightarrow> Inl UnitConversionError
                        | Some f \<Rightarrow> Inr f)
                  else Inr 1) (\<lambda>f.
          let result = NDArray (shape (data self))
                         (map2 (apply_op opr) (flat (data self))
                                              (map (\<lambda>x. f * x) (flat (data other))))
          in bind_err (propagate svc opr self other result) (\<lambda>unc.
             bind_err (combine_mask svc (mask self) (mask other)) (\<lambda>m.
               construct k \<lparr> data = result, uncertainty = unc, mask = m, wcs = wcs self,
                             meta = combine_meta svc (meta self) (meta other),
                             unit = unit_result svc opr (unit self) (unit other) \<rparr>))))"

text \<open>The operand of an operator: a number, a bare array, or an NDData.\<close>

datatype operand = Number real | RawArray "real ndarray" | NDOperand nddata

text \<open>
  Lines 37 to 95. The four operators differ in the method they call last. A number is
  spread over an array of the receiver's shape; a number or an array is wrapped with the
  receiver's \<open>wcs\<close> and unit; an NDData is rebuilt with the receiver's \<open>wcs\<close> and its own
  unit, uncertainty and mask.
\<close>

definition wrap_operand :: "nddata \<Rightarrow> operand \<Rightarrow> nddata" where
  "wrap_operand self other =
     (case other of
        Number v \<Rightarrow>
          \<lparr> data = np_full (shape (data self)) v, uncertainty = None, mask = None,
            wcs = wcs self, meta = [], unit = unit self \<rparr>
      | RawArray a \<Rightarrow>
          \<lparr> data = a, uncertainty = None, mask = None,
            wcs = wcs self, meta = [], unit = unit self \<rparr>
      | NDOperand n \<Rightarrow>
          \<lparr> data = data n, uncertainty = uncertainty n, mask = mask n,
            wcs = wcs self, meta = [], unit = unit n \<rparr>)"

definition BaseData_add :: "services \<Rightarrow> basedata \<Rightarrow> operand \<Rightarrow> pyerror + basedata" where
  "BaseData_add svc self other =
     nd_arithmetic svc Add (kind_of self) (base_of self) (wrap_operand (base_of self) other)"

definition BaseData_sub :: "services \<Rightarrow> basedata \<Rightarrow> operand \<Rightarrow> pyerror + basedata" where
  "BaseData_sub svc self other =
     nd_arithmetic svc Subtract (kind_of self) (base_of self) (wrap_operand (base_of self) other)"

definition BaseData_mul :: "services \<Rightarrow> basedata \<Rightarrow> operand \<Rightarrow> pyerror + basedata" where
  "BaseData_mul svc self other =
     nd_arithmetic svc Multiply (kind_of self) (base_of self) (wrap_operand (base_of self) other)"

definition BaseData_div :: "services \<Rightarrow> basedata \<Rightarrow> operand \<Rightarrow> pyerror + basedata" where
  "BaseData_div svc self other =
     nd_arithmetic svc Divide (kind_of self) (base_of self) (wrap_operand (base_of self) other)"

text \<open>The operators \<open>+\<close>, \<open>-\<close>, \<open>*\<close> and \<open>/\<close> (of Python 2) call the four methods.\<close>

definition binary_op ::
  "arith_op \<Rightarrow> services \<Rightarrow> basedata \<Rightarrow> operand \<Rightarrow> pyerror + basedata" where
  "binary_op opr =
     (case opr of Add \<Rightarrow> BaseData_add | Subtract \<Rightarrow> BaseData_sub
                | Multiply \<Rightarrow> BaseData_mul | Divide \<Rightarrow> BaseData_div)"

subsection \<open>The operators on objects\<close>

text \<open>
  The objects that the operators read and create: arrays, plain NDData objects and
  instances of the three classes. The store lists the objects that exist; a reference is
  an index into it, and a new object gets the next index.
\<close>

datatype pyobj = ArrayObj "real ndarray" | NDDataObj nddata | InstanceObj basedata

type_synonym heap = "pyobj list"

definition heap_get :: "heap \<Rightarrow> nat \<Rightarrow> pyobj option" where
  "heap_get h r = (if r < length h then Some (h ! r) else None)"

definition alloc :: "heap \<Rightarrow> pyobj \<Rightarrow> nat \<times> heap" where
  "alloc h x = (length h, h @ [x])"

text \<open>The right operand: a number, or a reference to an object.\<close>

datatype argument = NumberArg real | RefArg nat

text \<open>
  \<open>np.empty(shape)\<close> is a new array of arbitrary contents, here zeros; \<open>fill\<close> writes
  every element of the array it is called on.
\<close>

definition np_empty :: "nat list \<Rightarrow> real ndarray" where
  "np_empty s = np_full s 0"

definition array_fill :: "heap \<Rightarrow> nat \<Rightarrow> real \<Rightarrow> heap" where
  "array_fill h r v =
     (case heap_get h r of
        Some (ArrayObj a) \<Rightarrow> h[r := ArrayObj (np_full (shape a) v)]
      | _ \<Rightarrow> h)"

text \<open>\<open>NDData(...)\<close> creates an object.\<close>

definition NDData_new :: "heap \<Rightarrow> nddata \<Rightarrow> nat \<times> heap" where
  "NDData_new h n = alloc h (NDDataObj n)"

text \<open>
  Modelled from the spec: the methods \<open>add\<close>, \<open>subtract\<close>, \<open>multiply\<close> and
  \<open>divide\<close> of \<open>NDArithmeticMixin\<close> are not in the source. The spec: the result is a
  new instance of the receiver's class, and nothing is changed in place. The value of
  the result is that of \<open>nd_arithmetic\<close>.
\<close>

definition nd_arithmetic_st ::
  "services \<Rightarrow> arith_op \<Rightarrow> heap \<Rightarrow> nat \<Rightarrow> nat \<Rightarrow> (pyerror + nat) \<times> heap" where
  "nd_arithmetic_st svc opr h self other =
     (case (heap_get h self, heap_get h other) of
        (Some (InstanceObj v), Some (NDDataObj n)) \<Rightarrow>
          (case nd_arithmetic svc opr (kind_of v) (base_of v) n of
             Inl e \<Rightarrow> (Inl e, h)
           | Inr res \<Rightarrow> (case alloc h (InstanceObj res) of (r, h') \<Rightarrow> (Inr r, h')))
      | _ \<Rightarrow> (Inl TypeError, h))"

text \<open>
  Lines 37 to 95 on objects. For a number, line 40 creates an array, line 41 fills that
  array, and line 44 wraps it in a new NDData with the receiver's \<open>wcs\<close> and unit. An
  array is wrapped in the same way. For an NDData or an instance of any class, line 47
  creates a plain NDData from its data, unit, uncertainty and mask and the receiver's
  \<open>wcs\<close>. The last line calls the method of the mixin on the receiver and the new
  NDData. A reference to no object is not a state of a Python program; the model
  answers it with TypeError.
\<close>

definition operator_st ::
  "arith_op \<Rightarrow> services \<Rightarrow> heap \<Rightarrow> nat \<Rightarrow> argument \<Rightarrow> (pyerror + nat) \<times> heap" where
  "operator_st opr svc h self other =
     (case heap_get h self of
        Some (InstanceObj v) \<Rightarrow>
          (let me = base_of v in
           case other of
             NumberArg x \<Rightarrow>
               (case alloc h (ArrayObj (np_empty (shape (data me)))) of (new, h1) \<Rightarrow>
                  let h2 = array_fill h1 new x in
                  (case heap_get h2 new of
                     Some (ArrayObj a) \<Rightarrow>
                       (case NDData_new h2 \<lparr> data = a, uncertainty = None, mask = None,
                                              wcs = wcs me, meta = [], unit = unit me \<rparr> of
                          (other', h3) \<Rightarrow> nd_arithmetic_st svc opr h3 self other')
                   | _ \<Rightarrow> (Inl TypeError, h2)))
           | RefArg b \<Rightarrow>
               (case heap_get h b of
                  Some (ArrayObj a) \<Rightarrow>
                    (case NDData_new h \<lparr> data = a, uncertainty = None, mask = None,
                                          wcs = wcs me, meta = [], unit = unit me \<rparr> of
                       (other', h1) \<Rightarrow> nd_arithmetic_st svc opr h1 self other')
                | Some (NDDataObj n) \<Rightarrow>
                    (case NDData_new h \<lparr> data = data n, uncertainty = uncertainty n,
                                          mask = mask n, wcs = wcs me, meta = [],
                                          unit = unit n \<rparr> of
                       (other', h1) \<Rightarrow> nd_arithmetic_st svc opr h1 self other')
                | Some (InstanceObj i) \<Rightarrow>
                    (case NDData_new h \<lparr> data = data (base_of i),
                                          uncertainty = uncertainty (base_of i),
                                          mask = mask (base_of i), wcs = wcs me, meta = [],
                                          unit = unit (base_of i) \<rparr> of
                       (other', h1) \<Rightarrow> nd_arithmetic_st svc opr h1 self other')
                | None \<Rightarrow> (Inl TypeError, h)))
      | _ \<Rightarrow> (Inl TypeError, h))"

text \<open>The operand that an argument stands for in a store.\<close>

definition operand_of :: "heap \<Rightarrow> argument \<Rightarrow> operand option" where
  "operand_of h b =
     (case b of
        NumberArg x \<Rightarrow> Some (Number x)
      | RefArg r \<Rightarrow>
          (case heap_get h r of
             Some (ArrayObj a) \<Rightarrow> Some (RawArray a)
           | Some (NDDataObj n) \<Rightarrow> Some (NDOperand n)
           | Some (InstanceObj i) \<Rightarrow> Some (NDOperand (base_of i))
           | None \<Rightarrow> None))"

section \<open>Well-formed inputs\<close>

text \<open>The buffer of an array has as many elements as its shape says.\<close>

definition well_formed :: "'a ndarray \<Rightarrow> bool" where
  "well_formed a = (length (flat a) = size_of (shape a))"

text \<open>The data model's invariant on the mask: when present, it has the shape of the data.\<close>

definition mask_fits :: "nddata \<Rightarrow> bool" where
  "mask_fits self =
     (case mask self of None \<Rightarrow> True | Some v \<Rightarrow> shape (mask_as_bool v) = shape (data self))"

text \<open>A coordinate mapping of \<open>n\<close> axes: every per-axis list has \<open>n\<close> entries.\<close>

definition wcs_naxis :: "wcsprm \<Rightarrow> nat \<Rightarrow> bool" where
  "wcs_naxis w n =
     (length (crpix w) = n \<and> length (crval w) = n \<and> length (cdelt w) = n \<and>
      length (cunit w) = n \<and> length (ctype w) = n \<and>
      (case cd w of None \<Rightarrow> True | Some m \<Rightarrow> length m = n \<and> list_all (\<lambda>r. length r = n) m))"

text \<open>
  An instance exists only when its constructor has returned: the constructor of its
  class accepts its attributes.
\<close>

definition constructible :: "basedata \<Rightarrow> bool" where
  "constructible a =
     (case construct (kind_of a) (base_of a) of Inl _ \<Rightarrow> False | Inr _ \<Rightarrow> True)"

text \<open>The element \<open>a[k, i, j]\<close> of an array of three axes.\<close>

definition at3 :: "'a ndarray \<Rightarrow> nat \<Rightarrow> nat \<Rightarrow> nat \<Rightarrow> 'a" where
  "at3 a k i j = flat a ! ((k * (shape a ! 1) + i) * (shape a ! 2) + j)"

section \<open>Example inputs\<close>

definition ex_wcs :: wcsprm where
  "ex_wcs = \<lparr> crpix = [1, 1, 1], crval = [10, 20, 500], cdelt = [1, 1, 2],
              cunit = [''deg'', ''deg'', ''nm''],
              ctype = [''RA---TAN'', ''DEC--TAN'', ''WAVE''], cd = None \<rparr>"

text \<open>A cube of shape \<open>(2, 1, 2)\<close> with an uncertainty and a mask.\<close>

definition ex_cube :: nddata where
  "ex_cube = \<lparr> data = NDArray [2, 1, 2] [1, 2, 3, 4],
               uncertainty = Some (Uncert ''StdDevUncertainty'' (NDArray [2, 1, 2] [5, 6, 7, 8])),
               mask = Some (BoolMask (NDArray [2, 1, 2] [False, False, True, False])),
               wcs = Some ex_wcs, meta = [], unit = Some ''Jy'' \<rparr>"

text \<open>A cube of shape \<open>(2, 2, 2)\<close>, whose elements tell the two index orders apart.\<close>

definition ex_square :: nddata where
  "ex_square = \<lparr> data = NDArray [2, 2, 2] [1, 2, 3, 4, 5, 6, 7, 8],
                 uncertainty = Some (Uncert ''StdDevUncertainty''
                                 (NDArray [2, 2, 2] [10, 20, 30, 40, 50, 60, 70, 80])),
                 mask = Some (BoolMask (NDArray [2, 2, 2]
                                 [False, False, True, False, False, False, True, False])),
                 wcs = Some ex_wcs, meta = [], unit = Some ''Jy'' \<rparr>"

text \<open>A cube of shape \<open>(1, 1, 2)\<close>: one row of two columns.\<close>

definition ex_wide :: nddata where
  "ex_wide = \<lparr> data = NDArray [1, 1, 2] [1, 2],
               uncertainty = Some (Uncert ''StdDevUncertainty'' (NDArray [1, 1, 2] [5, 6])),
               mask = None, wcs = Some ex_wcs, meta = [], unit = Some ''Jy'' \<rparr>"

text \<open>
  A mapping whose reference pixel on the last axis is \<open>2 ^ 53\<close>, where adding 1 is
  lost to rounding, and a spectrum of one sample with it.
\<close>

definition ex_far_wcs :: wcsprm where
  "ex_far_wcs = \<lparr> crpix = [1, 1, 2 ^ 53], crval = [10, 20, 500], cdelt = [1, 1, 2],
              cunit = [''deg'', ''deg'', ''nm''],
              ctype = [''RA---TAN'', ''DEC--TAN'', ''WAVE''], cd = None \<rparr>"

definition ex_far :: nddata where
  "ex_far = \<lparr> data = NDArray [1] [7], uncertainty = None, mask = None,
              wcs = Some ex_far_wcs, meta = [], unit = Some ''Jy'' \<rparr>"

text \<open>A mapping with a logarithmic wavelength axis, and a spectrum of three samples.\<close>

definition ex_log_wcs :: wcsprm where
  "ex_log_wcs = \<lparr> crpix = [0, 0, 0], crval = [10, 20, 500], cdelt = [1, 1, 1],
              cunit = [''deg'', ''deg'', ''nm''],
              ctype = [''RA---TAN'', ''DEC--TAN'', ''WAVE-LOG''],
              cd = Some [ [1, 0, 0], [0, 1, 0], [0, 0, 1 / 1000] ] \<rparr>"

definition ex_log :: nddata where
  "ex_log = \<lparr> data = NDArray [3] [7, 8, 9], uncertainty = None, mask = None,
              wcs = Some ex_log_wcs, meta = [], unit = Some ''Jy'' \<rparr>"

text \<open>A spectrum of two samples, as \<open>get_spectrum\<close> returns it.\<close>

definition ex_spectrum :: spectrumdata where
  "ex_spectrum = \<lparr> data = NDArray [2] [2, 6],
                   uncertainty = Some (Uncert ''StdDevUncertainty'' (NDArray [2] [30, 70])),
                   mask = None, wcs = Some ex_wcs, meta = [], unit = Some ''Jy'',
                   dispersion = Quantity (NDArray [2] [1, 2]) ''nm'',
                   cross_dispersion = None,
                   flux = Quantity (NDArray [2] [2, 6]) ''Jy'',
                   error = Some (Quantity (NDArray [2] [30, 70]) ''Jy'') \<rparr>"

text \<open>An NDData of two samples without a coordinate mapping, to be an operand.\<close>

definition ex_other :: nddata where
  "ex_other = \<lparr> data = NDArray [2] [1, 2], uncertainty = None, mask = None,
                wcs = None, meta = [], unit = Some ''Jy'' \<rparr>"

text \<open>
  Stand-ins for the external services: equal units convert with the factor 1 and no
  others convert, and a result keeps the receiver's unit, uncertainty, mask and metadata.
\<close>

definition ex_services :: services where
  "ex_services = \<lparr> unit_factor = (\<lambda>u v. if u = v then Some 1 else None),
                   unit_result = (\<lambda>opr u v. u),
                   propagate = (\<lambda>opr a b res. Inr (uncertainty a)),
                   combine_mask = (\<lambda>m1 m2. Inr m1),
                   combine_meta = (\<lambda>a b. a) \<rparr>"

text \<open>A spectrum with a second axis: two samples of two values each.\<close>

definition ex_spectrum2d :: spectrumdata where
  "ex_spectrum2d = \<lparr> data = NDArray [2, 2] [1, 2, 3, 4],
                   uncertainty = Some (Uncert ''StdDevUncertainty'' (NDArray [2, 2] [10, 20, 30, 50])),
                   mask = None, wcs = Some ex_wcs, meta = [], unit = Some ''Jy'',
                   dispersion = Quantity (NDArray [2] [1, 2]) ''nm'',
                   cross_dispersion = Some (Quantity (NDArray [2] [20, 21]) ''deg''),
                   flux = Quantity (NDArray [2, 2] [1, 2, 3, 4]) ''Jy'',
                   error = Some (Quantity (NDArray [2, 2] [10, 20, 30, 50]) ''Jy'') \<rparr>"

text \<open>
  A store of two objects: the spectrum, and an instance of another class with data of
  the same shape.
\<close>

definition ex_heap :: heap where
  "ex_heap = [InstanceObj (SpectrumData ex_spectrum), InstanceObj (CubeData ex_other)]"

text \<open>The binary64 number nearest to one tenth.\<close>

definition ex_tenth :: real where
  "ex_tenth = 7205759403792794 / 2 ^ 56"

section \<open>Properties\<close>

lemma bind_err_simps:
  "bind_err (Inl e) f = Inl e"
  "bind_err (Inr x) f = f x"
  by (simp_all add: bind_err_def)

subsection \<open>Masked arrays, slices and reductions return\<close>

lemma masked_array_fits:
  "mask_fits self \<Longrightarrow>
   \<exists>b. masked_array (data self) (map_option mask_as_bool (mask self)) = Inr (Masked (data self) b)
        \<and> shape b = shape (data self)"
  by (auto simp: mask_fits_def masked_array_def np_full_def split: option.splits)

lemma slice_axis0_ok:
  "3 \<le> length (shape a) \<Longrightarrow>
   \<exists>a'. slice_axis0 a r = Inr a' \<and> length (shape a') = length (shape a)"
  by (cases "shape a") (auto simp: slice_axis0_def Let_def)

lemma ma_slice_axis0_ok:
  "3 \<le> length (shape (ma_data m)) \<Longrightarrow> shape (ma_mask m) = shape (ma_data m) \<Longrightarrow>
   \<exists>m'. ma_slice_axis0 m r = Inr m' \<and> length (shape (ma_data m')) = length (shape (ma_data m))"
  using slice_axis0_ok[of "ma_data m" r] slice_axis0_ok[of "ma_mask m" r]
  by (auto simp: ma_slice_axis0_def bind_err_simps)

lemma norm_axis_ok:
  "- int n \<le> i \<Longrightarrow> i < int n \<Longrightarrow> \<exists>ax. norm_axis i n = Inr ax \<and> ax < n"
  by (auto simp: norm_axis_def)

lemma ma_reduce_ok:
  assumes "- int (length (shape (ma_data m))) \<le> axis"
    and "axis < int (length (shape (ma_data m)))"
  shows "\<exists>m'. ma_reduce f m axis = Inr m'
           \<and> Suc (length (shape (ma_data m'))) = length (shape (ma_data m))"
proof -
  obtain ax where "norm_axis axis (ndim (ma_data m)) = Inr ax" "ax < length (shape (ma_data m))"
    using norm_axis_ok[OF assms] by (auto simp: ndim_def)
  then show ?thesis
    by (auto simp: ma_reduce_def bind_err_simps Let_def)
qed

subsection \<open>ImageData construction\<close>

lemma image_axis_ok:
  assumes "wcs_naxis w n" "i < n" "i < length (shape d)" "cdelt w ! i \<noteq> 0"
  shows "\<exists>q. image_axis w d i = Inr q"
  using assms
  by (simp add: image_axis_def wcs_naxis_def py_nth_def shape_at_def np_arange3_def bind_err_simps
      Let_def)

lemma ImageData_init_ok:
  assumes "length (shape (data nd)) = 2"
    and "wcs nd = None \<or>
         (\<exists>w n. wcs nd = Some w \<and> wcs_naxis w n \<and> 2 \<le> n \<and> cdelt w ! 0 \<noteq> 0 \<and> cdelt w ! 1 \<noteq> 0)"
  shows "\<exists>img. ImageData_init nd = Inr img \<and> uncertainty img = uncertainty nd
           \<and> mask img = mask nd \<and> wcs img = wcs nd \<and> meta img = meta nd
           \<and> unit img = unit nd \<and> data img = data nd"
proof (cases "wcs nd")
  case None
  then show ?thesis by (simp add: ImageData_init_def)
next
  case (Some w)
  then obtain n where n: "wcs_naxis w n" "2 \<le> n" "cdelt w ! 0 \<noteq> 0" "cdelt w ! 1 \<noteq> 0"
    using assms(2) by auto
  obtain q0 where q0: "image_axis w (data nd) 0 = Inr q0"
    using image_axis_ok[OF n(1), of 0 "data nd"] n assms(1) by auto
  obtain q1 where q1: "image_axis w (data nd) 1 = Inr q1"
    using image_axis_ok[OF n(1), of 1 "data nd"] n assms(1) by auto
  show ?thesis using Some q0 q1 by (simp add: ImageData_init_def bind_err_simps)
qed

lemma ex_cube_fits: "mask_fits ex_cube" "length (shape (data ex_cube)) = 3"
  by (simp_all add: mask_fits_def ex_cube_def mask_as_bool_def)

lemma ex_wcs_naxis: "wcs_naxis ex_wcs 3"
  by (simp add: wcs_naxis_def ex_wcs_def)

subsection \<open>SpectrumData without a coordinate mapping\<close>

text \<open>
  C2. The spec: without a coordinate mapping, construction succeeds and the dispersion is
  the index sequence \<open>0..N-1\<close> without a unit. The code: whatever the other arguments
  are, the constructor raises UnboundLocalError when \<open>wcs\<close> is None, since only the
  branch for a present mapping assigns \<open>disp_data\<close> and \<open>disp_unit\<close>.
\<close>

theorem SpectrumData_init_no_wcs_raises:
  "SpectrumData_init (nd\<lparr>wcs := None\<rparr>) = Inl UnboundLocalError"
  by (simp add: SpectrumData_init_def)

subsection \<open>collapse\_to\_spectrum with the default filter mask\<close>

text \<open>
  C10. For every cube and every method, \<open>collapse_to_spectrum\<close> with \<open>filter_mask\<close>
  None raises TypeError: the mask is inverted before anything is reduced or constructed.
  The call is a function of the cube and returns only the exception, so the cube is as
  it was.
\<close>

theorem collapse_to_spectrum_default_mask_raises:
  "collapse_to_spectrum self method None = Inl TypeError"
  by (simp add: collapse_to_spectrum_def)

subsection \<open>collapse\_to\_image\<close>

text \<open>
  C6. For every cube (three axes, the mask of the shape of the data when present), every
  range, every axis and every method name other than mean, median and mode,
  \<open>collapse_to_image\<close> raises NotImplementedError and returns no image.
\<close>

theorem collapse_to_image_unknown_method:
  assumes "method \<noteq> ''mean''" and "method \<noteq> ''median''" and "method \<noteq> ''mode''"
    and "mask_fits self" and "length (shape (data self)) = 3"
  shows "collapse_to_image self wavelength_range method axis = Inl NotImplementedError"
proof -
  obtain b where b:
    "masked_array (data self) (map_option mask_as_bool (mask self)) = Inr (Masked (data self) b)"
    "shape b = shape (data self)"
    using masked_array_fits[OF assms(4)] by blast
  show ?thesis
  proof (cases wavelength_range)
    case None
    then show ?thesis
      using b assms(1-3) by (simp add: collapse_to_image_def bind_err_simps)
  next
    case (Some r)
    obtain m' where "ma_slice_axis0 (Masked (data self) b) r = Inr m'"
      using ma_slice_axis0_ok[of "Masked (data self) b" r] b assms(5) by auto
    then show ?thesis
      using b assms(1-3) Some by (simp add: collapse_to_image_def bind_err_simps)
  qed
qed

theorem collapse_to_image_unknown_method_witness:
  "''bogus'' \<noteq> ''mean'' \<and> ''bogus'' \<noteq> ''median'' \<and> ''bogus'' \<noteq> ''mode''
   \<and> mask_fits ex_cube \<and> length (shape (data ex_cube)) = 3
   \<and> collapse_to_image ex_cube (Some (0, 1)) ''bogus'' 0 = Inl NotImplementedError"
  using collapse_to_image_unknown_method[of "''bogus''" ex_cube "Some (0, 1)" 0] ex_cube_fits
  by simp

text \<open>
  C5. For every cube (three axes, the mask of the shape of the data when present), every
  range and every axis of the cube, \<open>collapse_to_image\<close> with the method mean returns
  an image when the cube has no coordinate mapping or one of at least two axes with
  nonzero steps on the first two. The image has no uncertainty, its mask is the mask of
  the cube as it is, with its three axes, and its \<open>wcs\<close>, \<open>meta\<close> and \<open>unit\<close> are the
  cube's.
\<close>

theorem collapse_to_image_mean:
  assumes "length (shape (data self)) = 3" and "mask_fits self"
    and "- 3 \<le> axis" and "axis < 3"
    and "wcs self = None \<or>
         (\<exists>w n. wcs self = Some w \<and> wcs_naxis w n \<and> 2 \<le> n
                \<and> cdelt w ! 0 \<noteq> 0 \<and> cdelt w ! 1 \<noteq> 0)"
  shows "\<exists>img. collapse_to_image self wavelength_range ''mean'' axis = Inr img
           \<and> uncertainty img = None \<and> mask img = mask self
           \<and> wcs img = wcs self \<and> meta img = meta self \<and> unit img = unit self"
proof -
  obtain b where b:
    "masked_array (data self) (map_option mask_as_bool (mask self)) = Inr (Masked (data self) b)"
    "shape b = shape (data self)"
    using masked_array_fits[OF assms(2)] by blast
  obtain m where m:
    "(case wavelength_range of None \<Rightarrow> Inr (Masked (data self) b)
      | Some r \<Rightarrow> ma_slice_axis0 (Masked (data self) b) r) = Inr m"
    "length (shape (ma_data m)) = 3"
  proof (cases wavelength_range)
    case None
    then show ?thesis using that assms(1) by simp
  next
    case (Some r)
    then show ?thesis
      using that ma_slice_axis0_ok[of "Masked (data self) b" r] b assms(1) by auto
  qed
  obtain m' where m': "ma_mean m axis = Inr m'" "length (shape (ma_data m')) = 2"
    using ma_reduce_ok[of m axis mean_of] m(2) assms(3,4) by (auto simp: ma_mean_def)
  let ?nd = "\<lparr> data = ma_data m', uncertainty = None, mask = mask self,
               wcs = wcs self, meta = meta self, unit = unit self \<rparr>"
  obtain img where "ImageData_init ?nd = Inr img" "uncertainty img = None"
    "mask img = mask self" "wcs img = wcs self" "meta img = meta self" "unit img = unit self"
    using ImageData_init_ok[of ?nd] m'(2) assms(5) by auto
  then show ?thesis
    using b m m' by (simp add: collapse_to_image_def bind_err_simps)
qed

theorem collapse_to_image_mean_witness:
  "length (shape (data ex_cube)) = 3 \<and> mask_fits ex_cube \<and> - 3 \<le> (0::int) \<and> (0::int) < 3
   \<and> wcs ex_cube = Some ex_wcs \<and> wcs_naxis ex_wcs 3 \<and> (2::nat) \<le> 3
   \<and> cdelt ex_wcs ! 0 \<noteq> 0 \<and> cdelt ex_wcs ! 1 \<noteq> 0
   \<and> (\<exists>img. collapse_to_image ex_cube None ''mean'' 0 = Inr img
           \<and> uncertainty img = None
           \<and> mask img = Some (BoolMask (NDArray [2, 1, 2] [False, False, True, False]))
           \<and> wcs img = Some ex_wcs \<and> meta img = [] \<and> unit img = Some ''Jy'')"
proof -
  have w: "wcs ex_cube = Some ex_wcs" "cdelt ex_wcs ! 0 \<noteq> 0" "cdelt ex_wcs ! 1 \<noteq> 0"
    by (simp_all add: ex_cube_def ex_wcs_def)
  have "wcs ex_cube = None \<or>
         (\<exists>w n. wcs ex_cube = Some w \<and> wcs_naxis w n \<and> 2 \<le> n
                \<and> cdelt w ! 0 \<noteq> 0 \<and> cdelt w ! 1 \<noteq> 0)"
    using w ex_wcs_naxis by auto
  from collapse_to_image_mean[OF ex_cube_fits(2) ex_cube_fits(1) _ _ this, of 0 None]
  have "\<exists>img. collapse_to_image ex_cube None ''mean'' 0 = Inr img
           \<and> uncertainty img = None \<and> mask img = mask ex_cube
           \<and> wcs img = wcs ex_cube \<and> meta img = meta ex_cube \<and> unit img = unit ex_cube"
    by simp
  then show ?thesis
    using w ex_cube_fits ex_wcs_naxis by (simp add: ex_cube_def)
qed

subsection \<open>get\_spectrum\<close>

lemma offset_bound:
  fixes k i j :: nat
  assumes "k < N" "i < H" "j < W"
  shows "(k * H + i) * W + j < N * H * W"
proof -
  have "k * H + i < N * H"
  proof -
    have "k * H + i < k * H + H" using assms by simp
    also have "\<dots> = Suc k * H" by simp
    also have "\<dots> \<le> N * H" using assms(1) by (intro mult_le_mono1) simp
    finally show ?thesis .
  qed
  then have "Suc (k * H + i) \<le> N * H" by simp
  then have "Suc (k * H + i) * W \<le> N * H * W" by (rule mult_le_mono1)
  moreover have "(k * H + i) * W + j < Suc (k * H + i) * W" using assms(3) by simp
  ultimately show ?thesis by linarith
qed

lemma take1_drop: "n < length xs \<Longrightarrow> take (Suc 0) (drop n xs) = [xs ! n]"
  by (metis Cons_nth_drop_Suc take0 take_Suc_Cons)

lemma concat_singletons: "concat (map (\<lambda>k. [f k]) xs) = map f xs"
  by (induction xs) simp_all

lemma index_12_cube:
  assumes "shape a = [N, H, W]" "well_formed a" "0 \<le> i" "nat i < H" "0 \<le> j" "nat j < W"
  shows "index_12 a i j = Inr (NDArray [N] (map (\<lambda>k. at3 a k (nat i) (nat j)) [0..<N]))"
proof -
  have ni: "norm_index i H = Inr (nat i)" "norm_index j W = Inr (nat j)"
    using assms by (auto simp: norm_index_def)
  have len: "length (flat a) = N * H * W"
    using assms(1,2) by (simp add: well_formed_def size_of_def)
  have "map (\<lambda>k. take (Suc 0) (drop ((k * H + nat i) * W + nat j) (flat a))) [0..<N]
      = map (\<lambda>k. [flat a ! ((k * H + nat i) * W + nat j)]) [0..<N]"
    using offset_bound[OF _ assms(4) assms(6)] len
    by (intro map_cong[OF refl]) (simp add: take1_drop)
  then have eq: "concat (map (\<lambda>k. take (Suc 0) (drop ((k * H + nat i) * W + nat j) (flat a))) [0..<N])
      = map (\<lambda>k. flat a ! ((k * H + nat i) * W + nat j)) [0..<N]"
    by (simp only: concat_singletons)
  have "index_12 a i j = Inr (NDArray [N]
      (concat (map (\<lambda>k. take (Suc 0) (drop ((k * H + nat i) * W + nat j) (flat a))) [0..<N])))"
    using ni assms(1) by (simp add: index_12_def bind_err_simps)
  then show ?thesis
    using assms(1) by (simp only: eq at3_def) simp
qed

lemma SpectrumData_init_1d:
  assumes "wcs nd = Some w" "wcs_naxis w n" "1 \<le> n" "length (shape (data nd)) = 1"
    and "last (ctype w) = ''WAVE-LOG'' \<longrightarrow> 3 \<le> n \<and> cd w \<noteq> None"
  shows "\<exists>s. SpectrumData_init nd = Inr s \<and> data s = data nd \<and> uncertainty s = uncertainty nd
           \<and> mask s = mask nd \<and> wcs s = wcs nd \<and> meta s = meta nd \<and> unit s = unit nd"
proof -
  have p: "py_last (crpix w) = Inr (last (crpix w))"
    using assms(2,3) by (cases "crpix w") (auto simp: wcs_naxis_def py_last_def)
  have n0: "shape_at (data nd) 0 = Inr (shape (data nd) ! 0)"
    using assms(4) by (simp add: shape_at_def py_nth_def)
  have "cunit w \<noteq> []"
    using assms(2,3) by (auto simp: wcs_naxis_def)
  then have "\<exists>du. disp_unit_of w = Inr du"
    by (auto simp: disp_unit_of_def py_last_def py_nth_def split: list.splits)
  then obtain du where du: "disp_unit_of w = Inr du" by blast
  have t: "py_last (ctype w) = Inr (last (ctype w))"
    using assms(2,3) by (cases "ctype w") (auto simp: wcs_naxis_def py_last_def)
  have "\<exists>ys. wave_log w xs = Inr ys" for xs
  proof (cases "last (ctype w) = ''WAVE-LOG''")
    case False
    then show ?thesis using t by (simp add: wave_log_def bind_err_simps)
  next
    case True
    then obtain m where m: "cd w = Some m" "3 \<le> n" using assms(5) by auto
    then have "length m = n" "length (m ! 2) = n"
      using assms(2) by (auto simp: wcs_naxis_def list_all_length)
    then show ?thesis using t True m assms(2)
      by (simp add: wave_log_def bind_err_simps py_nth_def wcs_naxis_def)
  qed
  then obtain ys where ys: "wave_log w (disp_candidate (last (crpix w)) (shape (data nd) ! 0)) = Inr ys"
    by blast
  have c: "cross_disp w (data nd) = Inr None"
    using assms(4) by (simp add: cross_disp_def ndim_def)
  show ?thesis
    using assms(1) p n0 du ys c by (simp add: SpectrumData_init_def bind_err_simps)
qed

text \<open>
  C1, as amended. For every cube of shape \<open>(N, H, W)\<close> with a coordinate mapping of three
  axes (with a CD matrix when the last axis is WAVE-LOG) and indices \<open>x\<close>, \<open>y\<close> with
  \<open>0 \<le> y < H\<close> and \<open>0 \<le> x < W\<close>, and also \<open>x < H\<close> and \<open>y < W\<close> when the cube has
  an uncertainty or a mask, \<open>get_spectrum(x, y)\<close> returns a spectrum whose data is
  \<open>data[:, y, x]\<close>, whose uncertainty, when the cube has one, is \<open>uncertainty[:, x, y]\<close>
  of the same class, whose mask, when the cube has one, is \<open>mask[:, x, y]\<close>, and whose
  \<open>wcs\<close>, \<open>meta\<close> and \<open>unit\<close> are the cube's.
\<close>

theorem get_spectrum_index_convention:
  assumes "shape (data self) = [N, H, W]" and "well_formed (data self)"
    and "0 \<le> x" and "0 \<le> y" and "nat y < H" and "nat x < W"
    and "uncertainty self = None \<or>
         (\<exists>u. uncertainty self = Some u \<and> shape (array u) = [N, H, W] \<and> well_formed (array u))"
    and "mask self = None \<or>
         (\<exists>b. mask self = Some (BoolMask b) \<and> shape b = [N, H, W] \<and> well_formed b)"
    and "uncertainty self \<noteq> None \<or> mask self \<noteq> None \<longrightarrow> nat x < H \<and> nat y < W"
    and "wcs self = Some w" and "wcs_naxis w 3"
    and "last (ctype w) = ''WAVE-LOG'' \<longrightarrow> cd w \<noteq> None"
  shows "\<exists>s. get_spectrum self x y = Inr s
           \<and> data s = NDArray [N] (map (\<lambda>k. at3 (data self) k (nat y) (nat x)) [0..<N])
           \<and> (uncertainty self = None \<longrightarrow> uncertainty s = None)
           \<and> (\<forall>u. uncertainty self = Some u \<longrightarrow>
                 uncertainty s = Some (Uncert (uncertainty_class u)
                   (NDArray [N] (map (\<lambda>k. at3 (array u) k (nat x) (nat y)) [0..<N]))))
           \<and> (mask self = None \<longrightarrow> mask s = None)
           \<and> (\<forall>b. mask self = Some (BoolMask b) \<longrightarrow>
                 mask s = Some (BoolMask
                   (NDArray [N] (map (\<lambda>k. at3 b k (nat x) (nat y)) [0..<N]))))
           \<and> wcs s = wcs self \<and> meta s = meta self \<and> unit s = unit self"
proof -
  let ?d = "NDArray [N] (map (\<lambda>k. at3 (data self) k (nat y) (nat x)) [0..<N])"
  have d: "index_12 (data self) y x = Inr ?d"
    using index_12_cube[OF assms(1,2) assms(4,5) assms(3,6)] .
  define nu where "nu = map_option (\<lambda>u. Uncert (uncertainty_class u)
                   (NDArray [N] (map (\<lambda>k. at3 (array u) k (nat x) (nat y)) [0..<N]))) (uncertainty self)"
  have u: "(case uncertainty self of None \<Rightarrow> Inr None
               | Some u \<Rightarrow> bind_err (uncert_index_12 u x y) (\<lambda>u'. Inr (Some u'))) = Inr nu"
  proof (cases "uncertainty self")
    case None
    then show ?thesis by (simp add: nu_def)
  next
    case (Some u)
    then have "shape (array u) = [N, H, W]" "well_formed (array u)" "nat x < H" "nat y < W"
      using assms(7,9) by auto
    from index_12_cube[OF this(1,2) assms(3) this(3) assms(4) this(4)]
    show ?thesis using Some by (simp add: nu_def uncert_index_12_def bind_err_simps)
  qed
  define nm where "nm = map_option (\<lambda>v. case v of BoolMask b \<Rightarrow>
        BoolMask (NDArray [N] (map (\<lambda>k. at3 b k (nat x) (nat y)) [0..<N])) | ArrayMask m \<Rightarrow> v) (mask self)"
  have m: "(case mask self of None \<Rightarrow> Inr None
               | Some v \<Rightarrow> bind_err (mask_index_12 v x y) (\<lambda>v'. Inr (Some v'))) = Inr nm"
  proof (cases "mask self")
    case None
    then show ?thesis by (simp add: nm_def)
  next
    case (Some v)
    then obtain b where b: "v = BoolMask b" "shape b = [N, H, W]" "well_formed b" "nat x < H" "nat y < W"
      using assms(8,9) by auto
    from index_12_cube[OF b(2,3) assms(3) b(4) assms(4) b(5)]
    show ?thesis using Some b(1) by (simp add: nm_def mask_index_12_def bind_err_simps)
  qed
  let ?nd = "\<lparr> data = ?d, uncertainty = nu, mask = nm,
                           wcs = wcs self, meta = meta self, unit = unit self \<rparr>"
  obtain s where s: "SpectrumData_init ?nd = Inr s" "data s = ?d" "uncertainty s = nu" "mask s = nm"
     "wcs s = wcs self" "meta s = meta self" "unit s = unit self"
    using SpectrumData_init_1d[of ?nd w 3] assms(10,11,12) by auto
  have "get_spectrum self x y = Inr s"
    using d u m s(1) by (simp add: get_spectrum_def bind_err_simps)
  then show ?thesis using s by (auto simp: nu_def nm_def)
qed

text \<open>
  In the cube of shape \<open>(2, 2, 2)\<close>, \<open>get_spectrum(1, 0)\<close> takes the data at row 0 and
  column 1, and the uncertainty and the mask at row 1 and column 0.
\<close>

theorem get_spectrum_index_convention_witness:
  "\<exists>s. get_spectrum ex_square 1 0 = Inr s
     \<and> data s = NDArray [2] [2, 6]
     \<and> uncertainty s = Some (Uncert ''StdDevUncertainty'' (NDArray [2] [30, 70]))
     \<and> mask s = Some (BoolMask (NDArray [2] [True, True]))
     \<and> wcs s = Some ex_wcs \<and> meta s = [] \<and> unit s = Some ''Jy''"
proof -
  have up: "[0..<2] = [0, Suc 0]" by (simp add: upt_rec)
  have "\<exists>s. get_spectrum ex_square 1 0 = Inr s
           \<and> data s = NDArray [2] (map (\<lambda>k. at3 (data ex_square) k (nat 0) (nat 1)) [0..<2])
           \<and> (uncertainty ex_square = None \<longrightarrow> uncertainty s = None)
           \<and> (\<forall>u. uncertainty ex_square = Some u \<longrightarrow>
                 uncertainty s = Some (Uncert (uncertainty_class u)
                   (NDArray [2] (map (\<lambda>k. at3 (array u) k (nat 1) (nat 0)) [0..<2]))))
           \<and> (mask ex_square = None \<longrightarrow> mask s = None)
           \<and> (\<forall>b. mask ex_square = Some (BoolMask b) \<longrightarrow>
                 mask s = Some (BoolMask
                   (NDArray [2] (map (\<lambda>k. at3 b k (nat 1) (nat 0)) [0..<2]))))
           \<and> wcs s = wcs ex_square \<and> meta s = meta ex_square \<and> unit s = unit ex_square"
    by (rule get_spectrum_index_convention[where H = 2 and W = 2 and w = ex_wcs])
       (simp_all add: ex_square_def well_formed_def size_of_def ex_wcs_naxis, simp add: ex_wcs_def)
  then show ?thesis
    by (simp add: ex_square_def at3_def up)
qed

text \<open>
  C1 as stated fails on a cube that is not square. In the cube of shape \<open>(1, 1, 2)\<close>,
  \<open>x = 1\<close> and \<open>y = 0\<close> are the indices of the second pixel of the only row, and
  \<open>data[:, 0, 1]\<close> exists; \<open>uncertainty[:, 1, 0]\<close> does not, and \<open>get_spectrum\<close>
  raises IndexError.
\<close>

theorem get_spectrum_not_square_counterexample:
  "shape (data ex_wide) = [1, 1, 2]
   \<and> index_12 (data ex_wide) 0 1 = Inr (NDArray [1] [2])
   \<and> get_spectrum ex_wide 1 0 = Inl IndexError"
  by (simp add: ex_wide_def get_spectrum_def index_12_def norm_index_def uncert_index_12_def
        bind_err_simps)

subsection \<open>Rounding in the length of the candidate sequence\<close>

lemma f64_round_exponent:
  assumes "2 powr of_int e \<le> \<bar>x\<bar>" "\<bar>x\<bar> < 2 powr (of_int e + 1)"
  shows "f64_round x = 2 powr (of_int e - 52) * of_int (round_half_even (x / 2 powr (of_int e - 52)))"
proof -
  have pos: "0 < \<bar>x\<bar>" using assms(1) by (smt (verit) powr_gt_zero)
  then have "\<lfloor>log 2 \<bar>x\<bar>\<rfloor> = e"
    using assms by (simp add: floor_log_eq_powr_iff)
  then show ?thesis using pos by (simp add: f64_round_def Let_def)
qed

lemma f64_round_2p53_1: "f64_round (2 ^ 53 + 1) = 2 ^ 53"
proof -
  have a: "2 powr of_int 53 \<le> \<bar>2 ^ 53 + 1 :: real\<bar>" 
    by (simp add: powr_realpow)
  have "2 powr (of_int 53 + 1) = (2::real) ^ 54"
    using powr_realpow[of "2::real" 54] by simp
  then have b: "\<bar>2 ^ 53 + 1 :: real\<bar> < 2 powr (of_int 53 + 1)"
    by simp
  have u: "2 powr (of_int 53 - 52) = (2::real)" by simp
  have r: "round_half_even ((2 ^ 53 + 1) / 2) = 2 ^ 52"
  proof -
    have eq: "((2::real) ^ 53 + 1) / 2 = of_int (2 ^ 52) + 1 / 2" by simp
    have fl: "\<lfloor>((2::real) ^ 53 + 1) / 2\<rfloor> = 2 ^ 52"
      unfolding eq by (simp add: floor_eq_iff)
    show ?thesis
      by (simp only: round_half_even_def fl Let_def eq) simp
  qed
  show ?thesis
    using f64_round_exponent[OF a b] by (simp only: u r) simp
qed

lemma np_arange_2p53_empty: "np_arange (2 ^ 53) (f64_add (2 ^ 53) (real 1)) = []"
  using f64_round_2p53_1 by (simp add: np_arange_def f64_add_def f64_round_def)

lemma f64_round_scaled:
  assumes "2 ^ 52 \<le> \<bar>x\<bar> * 2 ^ k" and "\<bar>x\<bar> * 2 ^ k < 2 ^ 53"
  shows "f64_round x = of_int (round_half_even (x * 2 ^ k)) / 2 ^ k"
proof -
  have p: "2 powr (of_int (52 - int k)) = (2::real) ^ 52 / 2 ^ k"
    by (simp add: powr_diff powr_realpow)
  have q: "2 powr (of_int (52 - int k) + 1) = (2::real) ^ 53 / 2 ^ k"
  proof -
    have "of_int (52 - int k) + 1 = (53::real) - real k" by simp
    then show ?thesis by (simp only: powr_diff) (simp add: powr_realpow)
  qed
  have u: "2 powr (of_int (52 - int k) - 52) = 1 / (2::real) ^ k"
    by (simp add: powr_minus powr_realpow divide_simps)
  have a: "2 powr (of_int (52 - int k)) \<le> \<bar>x\<bar>"
    unfolding p using assms(1) by (simp add: divide_simps)
  have b: "\<bar>x\<bar> < 2 powr (of_int (52 - int k) + 1)"
    unfolding q using assms(2) by (simp add: divide_simps)
  show ?thesis
    using f64_round_exponent[OF a b] by (simp only: u) simp
qed

lemma f64_round_three: "f64_round (real 3) = 3"
  using f64_round_scaled[of 3 51] by (simp add: round_half_even_def)

lemma ex_tenth_times_three: "f64_mul ex_tenth 3 = 5404319552844596 / 2 ^ 54"
  using f64_round_scaled[of "ex_tenth * 3" 54]
  by (simp add: f64_mul_def ex_tenth_def round_half_even_def)

lemma ex_tenth_stop: "f64_add ex_tenth (5404319552844596 / 2 ^ 54) = 7205759403792794 / 2 ^ 54"
  using f64_round_scaled[of "ex_tenth + 5404319552844596 / 2 ^ 54" 54]
  by (simp add: f64_add_def ex_tenth_def round_half_even_def)

lemma ex_tenth_difference: "f64_sub (7205759403792794 / 2 ^ 54) ex_tenth = 5404319552844596 / 2 ^ 54"
  using f64_round_scaled[of "7205759403792794 / 2 ^ 54 - ex_tenth" 54]
  by (simp add: f64_sub_def ex_tenth_def round_half_even_def)

lemma ex_tenth_quotient: "f64_div (5404319552844596 / 2 ^ 54) ex_tenth = 6755399441055745 / 2 ^ 51"
  using f64_round_scaled[of "5404319552844596 / 2 ^ 54 / ex_tenth" 51]
  by (simp add: f64_div_def ex_tenth_def round_half_even_def)

text \<open>
  An axis of three samples that starts at one tenth with the step one tenth has four
  values: the rounded quotient is just above 3.
\<close>

lemma np_arange3_tenths: "\<exists>xs. np_arange3 ex_tenth (axis_stop ex_tenth ex_tenth 3) ex_tenth = Inr xs \<and> length xs = 4"
proof -
  have s: "axis_stop ex_tenth ex_tenth 3 = 7205759403792794 / 2 ^ 54"
    by (simp only: axis_stop_def f64_round_three ex_tenth_times_three ex_tenth_stop)
  have q: "f64_div (f64_sub (axis_stop ex_tenth ex_tenth 3) ex_tenth) ex_tenth = 6755399441055745 / 2 ^ 51"
    by (simp only: s ex_tenth_difference ex_tenth_quotient)
  have c: "nat \<lceil>6755399441055745 / (2::real) ^ 51\<rceil> = 4"
    by (simp add: ceiling_eq_iff)
  have z: "ex_tenth \<noteq> 0" by (simp add: ex_tenth_def)
  show ?thesis
    using z by (simp add: np_arange3_def Let_def q c)
qed

subsection \<open>The dispersion of a constructed SpectrumData\<close>

lemma bind_err_Inr:
  "bind_err m f = Inr y \<Longrightarrow> \<exists>x. m = Inr x \<and> f x = Inr y"
  by (cases m) (simp_all add: bind_err_def)

lemma py_last_Inr: "py_last xs = Inr x \<Longrightarrow> x = last xs \<and> xs \<noteq> []"
  by (cases xs) (simp_all add: py_last_def)

lemma py_nth_Inr: "py_nth xs i = Inr x \<Longrightarrow> x = xs ! i \<and> i < length xs"
  by (simp add: py_nth_def split: if_splits)

lemma SpectrumData_init_dispersion:
  assumes "SpectrumData_init nd = Inr s" and "wcs nd = Some w" and "shape (data nd) = n # rest"
  shows "\<exists>xs. wave_log w (disp_candidate (last (crpix w)) n) = Inr xs
           \<and> disp_unit_of w = Inr (q_unit (dispersion s))
           \<and> q_value (dispersion s) = NDArray [length xs] xs"
proof -
  have 0: "bind_err (py_last (crpix w)) (\<lambda>p. bind_err (shape_at (data nd) 0) (\<lambda>n.
          bind_err (disp_unit_of w) (\<lambda>disp_unit.
          bind_err (wave_log w (disp_candidate p n)) (\<lambda>disp_data.
          bind_err (cross_disp w (data nd)) (\<lambda>cross.
            Inr \<lparr> data = data nd, uncertainty = uncertainty nd, mask = mask nd,
                  wcs = wcs nd, meta = meta nd, unit = unit nd,
                  dispersion = Quantity (NDArray [length disp_data] disp_data) disp_unit,
                  cross_dispersion = cross,
                  flux = Quantity (data nd) (as_unit (unit nd)),
                  error = (case uncertainty nd of
                             None \<Rightarrow> None
                           | Some u \<Rightarrow> Some (Quantity (array u) (as_unit (unit nd)))) \<rparr>))))) = Inr s"
    using assms(1,2) by (simp add: SpectrumData_init_def)
  from bind_err_Inr[OF 0] obtain p where p: "py_last (crpix w) = Inr p"
    and 1: "bind_err (shape_at (data nd) 0) (\<lambda>n.
          bind_err (disp_unit_of w) (\<lambda>disp_unit.
          bind_err (wave_log w (disp_candidate p n)) (\<lambda>disp_data.
          bind_err (cross_disp w (data nd)) (\<lambda>cross.
            Inr \<lparr> data = data nd, uncertainty = uncertainty nd, mask = mask nd,
                  wcs = wcs nd, meta = meta nd, unit = unit nd,
                  dispersion = Quantity (NDArray [length disp_data] disp_data) disp_unit,
                  cross_dispersion = cross,
                  flux = Quantity (data nd) (as_unit (unit nd)),
                  error = (case uncertainty nd of
                             None \<Rightarrow> None
                           | Some u \<Rightarrow> Some (Quantity (array u) (as_unit (unit nd)))) \<rparr>)))) = Inr s"
    by blast
  have n: "shape_at (data nd) 0 = Inr n" using assms(3) by (simp add: shape_at_def py_nth_def)
  from 1 n have 2: "bind_err (disp_unit_of w) (\<lambda>disp_unit.
          bind_err (wave_log w (disp_candidate p n)) (\<lambda>disp_data.
          bind_err (cross_disp w (data nd)) (\<lambda>cross.
            Inr \<lparr> data = data nd, uncertainty = uncertainty nd, mask = mask nd,
                  wcs = wcs nd, meta = meta nd, unit = unit nd,
                  dispersion = Quantity (NDArray [length disp_data] disp_data) disp_unit,
                  cross_dispersion = cross,
                  flux = Quantity (data nd) (as_unit (unit nd)),
                  error = (case uncertainty nd of
                             None \<Rightarrow> None
                           | Some u \<Rightarrow> Some (Quantity (array u) (as_unit (unit nd)))) \<rparr>))) = Inr s"
    by (simp add: bind_err_simps)
  from bind_err_Inr[OF 2] obtain du where du: "disp_unit_of w = Inr du"
    and 3: "bind_err (wave_log w (disp_candidate p n)) (\<lambda>disp_data.
          bind_err (cross_disp w (data nd)) (\<lambda>cross.
            Inr \<lparr> data = data nd, uncertainty = uncertainty nd, mask = mask nd,
                  wcs = wcs nd, meta = meta nd, unit = unit nd,
                  dispersion = Quantity (NDArray [length disp_data] disp_data) du,
                  cross_dispersion = cross,
                  flux = Quantity (data nd) (as_unit (unit nd)),
                  error = (case uncertainty nd of
                             None \<Rightarrow> None
                           | Some u \<Rightarrow> Some (Quantity (array u) (as_unit (unit nd)))) \<rparr>)) = Inr s"
    by blast
  from bind_err_Inr[OF 3] obtain xs where xs: "wave_log w (disp_candidate p n) = Inr xs"
    and 4: "bind_err (cross_disp w (data nd)) (\<lambda>cross.
            Inr \<lparr> data = data nd, uncertainty = uncertainty nd, mask = mask nd,
                  wcs = wcs nd, meta = meta nd, unit = unit nd,
                  dispersion = Quantity (NDArray [length xs] xs) du,
                  cross_dispersion = cross,
                  flux = Quantity (data nd) (as_unit (unit nd)),
                  error = (case uncertainty nd of
                             None \<Rightarrow> None
                           | Some u \<Rightarrow> Some (Quantity (array u) (as_unit (unit nd)))) \<rparr>) = Inr s"
    by blast
  from bind_err_Inr[OF 4] obtain cross where
    s: "s = \<lparr> data = data nd, uncertainty = uncertainty nd, mask = mask nd,
                  wcs = wcs nd, meta = meta nd, unit = unit nd,
                  dispersion = Quantity (NDArray [length xs] xs) du,
                  cross_dispersion = cross,
                  flux = Quantity (data nd) (as_unit (unit nd)),
                  error = (case uncertainty nd of
                             None \<Rightarrow> None
                           | Some u \<Rightarrow> Some (Quantity (array u) (as_unit (unit nd)))) \<rparr>"
    by auto
  have "p = last (crpix w)" using py_last_Inr[OF p] by simp
  then show ?thesis using du xs s by simp
qed

lemma disp_unit_of_Inr:
  "disp_unit_of w = Inr du \<Longrightarrow> du = (if length (cunit w) = 3 then last (cunit w) else cunit w ! 0)"
  by (auto simp: disp_unit_of_def dest: py_last_Inr py_nth_Inr split: if_splits)

lemma wave_log_plain:
  "wave_log w xs = Inr ys \<Longrightarrow> last (ctype w) \<noteq> ''WAVE-LOG'' \<Longrightarrow> ys = xs"
  by (auto simp: wave_log_def dest!: bind_err_Inr py_last_Inr split: if_splits)

lemma wave_log_log:
  assumes "wave_log w xs = Inr ys" and "last (ctype w) = ''WAVE-LOG''" and "cd w = Some m"
  shows "ys = map (\<lambda>d. crval w ! 2 * exp (m ! 2 ! 2 * (d - crpix w ! 2) / crval w ! 2)) xs"
  using assms
  by (auto simp: wave_log_def dest!: bind_err_Inr py_last_Inr py_nth_Inr split: if_splits)

lemma length_disp_candidate: "length (disp_candidate p n) = n"
  by (simp add: disp_candidate_def Let_def np_arange_n_def)

lemma disp_candidate_mismatch:
  "length (np_arange p (f64_add p (real n))) \<noteq> n \<Longrightarrow> disp_candidate p n = map real [0..<n]"
  by (simp add: disp_candidate_def Let_def np_arange_n_def)

lemma disp_candidate_zero: "disp_candidate 0 n = map real [0..<n]"
proof (cases "length (np_arange 0 (f64_add 0 (real n))) = n")
  case False
  then show ?thesis by (rule disp_candidate_mismatch)
next
  case True
  then have "nat \<lceil>f64_round (f64_add 0 (real n) - 0)\<rceil> = n"
    by (simp add: np_arange_def)
  then have "np_arange 0 (f64_add 0 (real n)) = map real [0..<n]"
    by (simp add: np_arange_def)
  then show ?thesis using True by (simp add: disp_candidate_def Let_def)
qed

lemma ex_far_init:
  "\<exists>s. SpectrumData_init ex_far = Inr s \<and> dispersion s = Quantity (NDArray [1] [0]) ''nm''"
  using np_arange_2p53_empty
  by (simp add: SpectrumData_init_def ex_far_def ex_far_wcs_def py_last_def shape_at_def py_nth_def
      disp_unit_of_def wave_log_def cross_disp_def ndim_def disp_candidate_def np_arange_n_def
      bind_err_simps)

lemma ex_log_init: "\<exists>s. SpectrumData_init ex_log = Inr s"
  by (simp add: SpectrumData_init_def ex_log_def ex_log_wcs_def py_last_def shape_at_def
      py_nth_def disp_unit_of_def wave_log_def cross_disp_def ndim_def bind_err_simps)

text \<open>
  C3, as amended. For every SpectrumData constructed with a coordinate mapping whose
  candidate sequence (the range from \<open>crpix[-1]\<close> to \<open>crpix[-1] + N\<close>) has a length
  other than \<open>N = data.shape[0]\<close>: the dispersion carries the unit of the mapping (of
  the last axis when the mapping has three units, of the first axis otherwise); its
  values are \<open>0..N-1\<close> when the type of the last axis is not WAVE-LOG, and the
  logarithmic transform of \<open>0..N-1\<close> when it is (with a nonzero reference value).
\<close>

theorem dispersion_fallback:
  assumes "SpectrumData_init nd = Inr s" and "wcs nd = Some w" and "shape (data nd) = n # rest"
    and "length (np_arange (last (crpix w)) (f64_add (last (crpix w)) (real n))) \<noteq> n"
  shows "q_unit (dispersion s) = (if length (cunit w) = 3 then last (cunit w) else cunit w ! 0)
       \<and> (last (ctype w) \<noteq> ''WAVE-LOG'' \<longrightarrow>
            q_value (dispersion s) = NDArray [n] (map real [0..<n]))
       \<and> (\<forall>m. last (ctype w) = ''WAVE-LOG'' \<and> cd w = Some m \<and> crval w ! 2 \<noteq> 0 \<longrightarrow>
            q_value (dispersion s) = NDArray [n]
              (map (\<lambda>k. crval w ! 2 * exp (m ! 2 ! 2 * (real k - crpix w ! 2) / crval w ! 2))
                   [0..<n]))"
proof -
  obtain xs where xs: "wave_log w (map real [0..<n]) = Inr xs"
    "disp_unit_of w = Inr (q_unit (dispersion s))"
    "q_value (dispersion s) = NDArray [length xs] xs"
    using SpectrumData_init_dispersion[OF assms(1-3)] disp_candidate_mismatch[OF assms(4)] by auto
  have 1: "q_unit (dispersion s) = (if length (cunit w) = 3 then last (cunit w) else cunit w ! 0)"
    using disp_unit_of_Inr[OF xs(2)] .
  have 2: "q_value (dispersion s) = NDArray [n] (map real [0..<n])" if "last (ctype w) \<noteq> ''WAVE-LOG''"
    using wave_log_plain[OF xs(1) that] xs(3) by simp
  have 3: "q_value (dispersion s) = NDArray [n]
              (map (\<lambda>k. crval w ! 2 * exp (m ! 2 ! 2 * (real k - crpix w ! 2) / crval w ! 2)) [0..<n])"
    if "last (ctype w) = ''WAVE-LOG''" "cd w = Some m" for m
    using wave_log_log[OF xs(1) that] xs(3) by (simp add: comp_def)
  show ?thesis using 1 2 3 by blast
qed

theorem dispersion_fallback_witness:
  "length (np_arange (2 ^ 53) (f64_add (2 ^ 53) (real 1))) \<noteq> 1
   \<and> (\<exists>s. SpectrumData_init ex_far = Inr s
          \<and> q_unit (dispersion s) = ''nm''
          \<and> q_value (dispersion s) = NDArray [1] [0])"
proof -
  obtain s where s: "SpectrumData_init ex_far = Inr s"
    using ex_far_init by blast
  have w: "wcs ex_far = Some ex_far_wcs" "shape (data ex_far) = 1 # []"
    by (simp_all add: ex_far_def)
  have l: "last (crpix ex_far_wcs) = 2 ^ 53"
    by (simp add: ex_far_wcs_def)
  have m: "length (np_arange (last (crpix ex_far_wcs))
             (f64_add (last (crpix ex_far_wcs)) (real 1))) \<noteq> 1"
    unfolding l using np_arange_2p53_empty by simp
  from dispersion_fallback[OF s w m]
  have "q_unit (dispersion s) = ''nm'' \<and> q_value (dispersion s) = NDArray [1] [0]"
    by (simp add: ex_far_wcs_def)
  then show ?thesis
    using s m l by auto
qed

text \<open>
  C3 as stated fails: with the reference pixel \<open>2 ^ 53\<close> and one sample the candidate
  sequence is empty, the dispersion falls back to the sequence \<open>0\<close>, and its unit is
  the unit nm of the mapping, not the absent unit.
\<close>

theorem dispersion_fallback_unit_counterexample:
  "length (np_arange (2 ^ 53) (f64_add (2 ^ 53) (real 1))) \<noteq> 1
   \<and> last (crpix ex_far_wcs) = 2 ^ 53 \<and> shape (data ex_far) = [1]
   \<and> (\<exists>s. SpectrumData_init ex_far = Inr s
          \<and> dispersion s = Quantity (NDArray [1] [0]) ''nm''
          \<and> q_unit (dispersion s) \<noteq> as_unit None)"
proof -
  obtain s where "SpectrumData_init ex_far = Inr s"
    "dispersion s = Quantity (NDArray [1] [0]) ''nm''"
    using ex_far_init by blast
  then show ?thesis
    using np_arange_2p53_empty by (auto simp: ex_far_wcs_def ex_far_def as_unit_def)
qed

text \<open>
  C4. For every SpectrumData constructed with a coordinate mapping whose last axis type
  is WAVE-LOG (with the CD matrix \<open>m\<close> and a nonzero reference value), the dispersion
  sample at each index is \<open>crval[2] * exp(cd[2][2] * (c - crpix[2]) / crval[2])\<close>,
  where \<open>c\<close> is the sample of the candidate sequence at that index. With three axes,
  \<open>crpix[2] = 0\<close>, \<open>crval[2] = 500\<close> and \<open>cd[2][2] = 0.001\<close>, the sample at index
  \<open>k\<close> is \<open>500 * exp(0.001 * k / 500)\<close>, and the sample at index 0 is 500. The numbers
  are real numbers.
\<close>

theorem dispersion_wave_log:
  assumes "SpectrumData_init nd = Inr s" and "wcs nd = Some w" and "shape (data nd) = n # rest"
    and "last (ctype w) = ''WAVE-LOG''" and "cd w = Some m" and "crval w ! 2 \<noteq> 0"
  shows "q_value (dispersion s) = NDArray [n]
           (map (\<lambda>d. crval w ! 2 * exp (m ! 2 ! 2 * (d - crpix w ! 2) / crval w ! 2))
                (disp_candidate (last (crpix w)) n))
       \<and> (length (crpix w) = 3 \<and> crpix w ! 2 = 0 \<and> crval w ! 2 = 500 \<and> m ! 2 ! 2 = 1 / 1000 \<longrightarrow>
            (\<forall>k<n. flat (q_value (dispersion s)) ! k = 500 * exp (1 / 1000 * real k / 500))
            \<and> (0 < n \<longrightarrow> flat (q_value (dispersion s)) ! 0 = 500))"
proof -
  obtain xs where xs: "wave_log w (disp_candidate (last (crpix w)) n) = Inr xs"
    "q_value (dispersion s) = NDArray [length xs] xs"
    using SpectrumData_init_dispersion[OF assms(1-3)] by auto
  have 1: "q_value (dispersion s) = NDArray [n]
           (map (\<lambda>d. crval w ! 2 * exp (m ! 2 ! 2 * (d - crpix w ! 2) / crval w ! 2))
                (disp_candidate (last (crpix w)) n))"
    using wave_log_log[OF xs(1) assms(4,5)] xs(2) by (simp add: length_disp_candidate)
  have 2: "(\<forall>k<n. flat (q_value (dispersion s)) ! k = 500 * exp (1 / 1000 * real k / 500))
            \<and> (0 < n \<longrightarrow> flat (q_value (dispersion s)) ! 0 = 500)"
    if h: "length (crpix w) = 3" "crpix w ! 2 = 0" "crval w ! 2 = 500" "m ! 2 ! 2 = 1 / 1000"
  proof -
    have "crpix w \<noteq> []" using h(1) by auto
    then have "last (crpix w) = crpix w ! 2"
      using h(1) by (simp add: last_conv_nth)
    then have "disp_candidate (last (crpix w)) n = map real [0..<n]"
      using h(2) disp_candidate_zero by simp
    then show ?thesis using 1 h by simp
  qed
  show ?thesis using 1 2 by blast
qed

theorem dispersion_wave_log_witness:
  "\<exists>s. SpectrumData_init ex_log = Inr s
     \<and> flat (q_value (dispersion s)) ! 0 = 500
     \<and> flat (q_value (dispersion s)) ! 2 = 500 * exp (1 / 1000 * real 2 / 500)"
proof -
  obtain s where s: "SpectrumData_init ex_log = Inr s"
    using ex_log_init by blast
  have w: "wcs ex_log = Some ex_log_wcs" "shape (data ex_log) = 3 # []"
    "last (ctype ex_log_wcs) = ''WAVE-LOG''"
    "cd ex_log_wcs = Some [ [1, 0, 0], [0, 1, 0], [0, 0, 1 / 1000] ]"
    "crval ex_log_wcs ! 2 \<noteq> 0"
    by (simp_all add: ex_log_def ex_log_wcs_def)
  from dispersion_wave_log[OF s w, THEN conjunct2]
  have "(\<forall>k<3. flat (q_value (dispersion s)) ! k = 500 * exp (1 / 1000 * real k / 500))
      \<and> flat (q_value (dispersion s)) ! 0 = 500"
    by (simp add: ex_log_wcs_def)
  then show ?thesis
    using s by auto
qed

subsection \<open>Arithmetic\<close>

lemma cross_disp_shape: "shape d' = shape d \<Longrightarrow> cross_disp w d' = cross_disp w d"
  by (simp add: cross_disp_def ndim_def shape_at_def)

lemma image_axis_shape: "shape d' = shape d \<Longrightarrow> image_axis w d' i = image_axis w d i"
  by (simp add: image_axis_def shape_at_def)

lemma SpectrumData_init_same_shape:
  assumes "SpectrumData_init nd = Inr s" and "wcs nd' = wcs nd"
    and "shape (data nd') = shape (data nd)"
  shows "\<exists>s'. SpectrumData_init nd' = Inr s' \<and> nddata.truncate s' = nd'"
proof (cases "wcs nd")
  case None
  then show ?thesis using assms(1) by (simp add: SpectrumData_init_def)
next
  case (Some w)
  have sh: "shape_at (data nd') 0 = shape_at (data nd) 0"
    using assms(3) by (simp add: shape_at_def)
  from assms(1) Some obtain p where p: "py_last (crpix w) = Inr p"
    by (cases "py_last (crpix w)") (simp_all add: SpectrumData_init_def bind_err_simps)
  from assms(1) Some p obtain n where n: "shape_at (data nd) 0 = Inr n"
    by (cases "shape_at (data nd) 0") (simp_all add: SpectrumData_init_def bind_err_simps)
  from assms(1) Some p n obtain du where du: "disp_unit_of w = Inr du"
    by (cases "disp_unit_of w") (simp_all add: SpectrumData_init_def bind_err_simps)
  from assms(1) Some p n du obtain xs where xs: "wave_log w (disp_candidate p n) = Inr xs"
    by (cases "wave_log w (disp_candidate p n)") (simp_all add: SpectrumData_init_def bind_err_simps)
  from assms(1) Some p n du xs obtain c where c: "cross_disp w (data nd) = Inr c"
    by (cases "cross_disp w (data nd)") (simp_all add: SpectrumData_init_def bind_err_simps)
  show ?thesis
    using Some assms(2) p n du xs c sh cross_disp_shape[OF assms(3), of w]
    by (simp add: SpectrumData_init_def bind_err_simps nddata.truncate_def)
qed

lemma ImageData_init_same_shape:
  assumes "ImageData_init nd = Inr i" and "wcs nd' = wcs nd"
    and "shape (data nd') = shape (data nd)"
  shows "\<exists>i'. ImageData_init nd' = Inr i' \<and> nddata.truncate i' = nd'"
proof (cases "wcs nd")
  case None
  then show ?thesis using assms(2) by (simp add: ImageData_init_def nddata.truncate_def)
next
  case (Some w)
  from assms(1) Some obtain q0 where q0: "image_axis w (data nd) 0 = Inr q0"
    by (cases "image_axis w (data nd) 0") (simp_all add: ImageData_init_def bind_err_simps)
  from assms(1) Some q0 obtain q1 where q1: "image_axis w (data nd) 1 = Inr q1"
    by (cases "image_axis w (data nd) 1") (simp_all add: ImageData_init_def bind_err_simps)
  show ?thesis
    using Some assms(2) q0 q1 image_axis_shape[OF assms(3), of w]
    by (simp add: ImageData_init_def bind_err_simps nddata.truncate_def)
qed

lemma construct_same_shape:
  assumes "construct k nd = Inr a" and "wcs nd' = wcs nd"
    and "shape (data nd') = shape (data nd)"
  shows "\<exists>r. construct k nd' = Inr r \<and> kind_of r = k \<and> base_of r = nd'"
proof (cases k)
  case Cube
  then show ?thesis by (simp add: construct_def kind_of_def base_of_def)
next
  case Spectrum
  then obtain s where "SpectrumData_init nd = Inr s"
    using assms(1) by (cases "SpectrumData_init nd") (simp_all add: construct_def bind_err_simps)
  from SpectrumData_init_same_shape[OF this assms(2,3)] show ?thesis
    using Spectrum by (auto simp: construct_def kind_of_def base_of_def bind_err_simps)
next
  case Image
  then obtain i where "ImageData_init nd = Inr i"
    using assms(1) by (cases "ImageData_init nd") (simp_all add: construct_def bind_err_simps)
  from ImageData_init_same_shape[OF this assms(2,3)] show ?thesis
    using Image by (auto simp: construct_def kind_of_def base_of_def bind_err_simps)
qed

lemma nd_arithmetic_ok:
  assumes "construct k self = Inr a0"
    and "shape (data other) = shape (data self)"
    and "(opr = Add \<or> opr = Subtract) \<and> unit other \<noteq> unit self \<longrightarrow>
           unit_factor svc (unit other) (unit self) \<noteq> None"
    and "\<And>res. \<exists>u. propagate svc opr self other res = Inr u"
    and "\<exists>m. combine_mask svc (mask self) (mask other) = Inr m"
  shows "\<exists>r f. nd_arithmetic svc opr k self other = Inr r \<and> kind_of r = k
           \<and> wcs (base_of r) = wcs self
           \<and> data (base_of r) = NDArray (shape (data self))
                (map2 (apply_op opr) (flat (data self)) (map (\<lambda>x. f * x) (flat (data other))))
           \<and> ((opr = Add \<or> opr = Subtract) \<and> unit other \<noteq> unit self \<or> f = 1)"
proof -
  obtain f where f: "(if (opr = Add \<or> opr = Subtract) \<and> unit other \<noteq> unit self
                  then (case unit_factor svc (unit other) (unit self) of
                          None \<Rightarrow> Inl UnitConversionError
                        | Some f \<Rightarrow> Inr f)
                  else Inr 1) = Inr f"
     "(opr = Add \<or> opr = Subtract) \<and> unit other \<noteq> unit self \<or> f = 1"
    using assms(3) by (cases "(opr = Add \<or> opr = Subtract) \<and> unit other \<noteq> unit self") auto
  let ?res = "NDArray (shape (data self))
                (map2 (apply_op opr) (flat (data self)) (map (\<lambda>x. f * x) (flat (data other))))"
  obtain u where u: "propagate svc opr self other ?res = Inr u" using assms(4) by blast
  obtain m where m: "combine_mask svc (mask self) (mask other) = Inr m" using assms(5) by blast
  let ?nd = "\<lparr> data = ?res, uncertainty = u, mask = m, wcs = wcs self,
                             meta = combine_meta svc (meta self) (meta other),
                             unit = unit_result svc opr (unit self) (unit other) \<rparr>"
  obtain r where r: "construct k ?nd = Inr r" "kind_of r = k" "base_of r = ?nd"
    using construct_same_shape[OF assms(1), of ?nd] by auto
  have "nd_arithmetic svc opr k self other = Inr r"
    using assms(2) f(1) u m r(1) by (simp add: nd_arithmetic_def bind_err_simps Let_def)
  then show ?thesis using r f(2) by auto
qed

lemma map_times_one: "map ((*) (1::real)) xs = xs"
  by (induction xs) simp_all

lemma nd_arithmetic_same_unit:
  assumes "construct k self = Inr a0"
    and "shape (data other) = shape (data self)"
    and "unit other = unit self"
    and "\<And>res. \<exists>u. propagate svc opr self other res = Inr u"
    and "\<exists>m. combine_mask svc (mask self) (mask other) = Inr m"
  shows "\<exists>r. nd_arithmetic svc opr k self other = Inr r \<and> kind_of r = k
           \<and> wcs (base_of r) = wcs self
           \<and> data (base_of r) = NDArray (shape (data self))
                (map2 (apply_op opr) (flat (data self)) (flat (data other)))"
proof -
  have "(opr = Add \<or> opr = Subtract) \<and> unit other \<noteq> unit self \<longrightarrow>
           unit_factor svc (unit other) (unit self) \<noteq> None"
    using assms(3) by simp
  from nd_arithmetic_ok[OF assms(1,2) this assms(4,5)] assms(3)
  show ?thesis by (auto simp: map_times_one)
qed

lemma constructibleD: "constructible a \<Longrightarrow> \<exists>a0. construct (kind_of a) (base_of a) = Inr a0"
  by (cases "construct (kind_of a) (base_of a)") (simp_all add: constructible_def)

lemma binary_op_unfold:
  "binary_op opr svc a b = nd_arithmetic svc opr (kind_of a) (base_of a) (wrap_operand (base_of a) b)"
  by (cases opr) (simp_all add: binary_op_def BaseData_add_def BaseData_sub_def BaseData_mul_def BaseData_div_def)

lemma ex_spectrum_constructible: "constructible (SpectrumData ex_spectrum)"
  by (simp add: constructible_def construct_def kind_of_def base_of_def nddata.truncate_def
      ex_spectrum_def ex_wcs_def SpectrumData_init_def py_last_def shape_at_def py_nth_def
      disp_unit_of_def wave_log_def cross_disp_def ndim_def bind_err_simps)

lemma heap_get_SomeD: "heap_get h r = Some x \<Longrightarrow> r < length h \<and> h ! r = x"
  by (simp add: heap_get_def split: if_splits)

lemma nd_arithmetic_st_ok:
  assumes "heap_get h a = Some (InstanceObj v)" and "heap_get h b = Some (NDDataObj n)"
    and "nd_arithmetic svc opr (kind_of v) (base_of v) n = Inr res"
  shows "nd_arithmetic_st svc opr h a b = (Inr (length h), h @ [InstanceObj res])"
  using assms by (simp add: nd_arithmetic_st_def alloc_def)

lemma operator_st_run:
  assumes "heap_get h a = Some (InstanceObj v)" and "operand_of h b = Some bv"
    and "nd_arithmetic svc opr (kind_of v) (base_of v) (wrap_operand (base_of v) bv) = Inr res"
  shows "\<exists>r h'. operator_st opr svc h a b = (Inr r, h') \<and> length h \<le> r
           \<and> heap_get h' r = Some (InstanceObj res) \<and> take (length h) h' = h"
proof -
  have a: "a < length h" using heap_get_SomeD[OF assms(1)] by simp
  show ?thesis
  proof (cases b)
    case (NumberArg x)
    then have bv: "bv = Number x" using assms(2) by (simp add: operand_of_def)
    let ?arr = "np_full (shape (data (base_of v))) x"
    let ?n = "\<lparr> data = ?arr, uncertainty = None, mask = None,
                 wcs = wcs (base_of v), meta = [], unit = unit (base_of v) \<rparr>"
    let ?h2 = "h @ [ArrayObj ?arr]"
    let ?h3 = "?h2 @ [NDDataObj ?n]"
    have f: "array_fill (h @ [ArrayObj (np_empty (shape (data (base_of v))))]) (length h) x = ?h2"
      by (simp add: array_fill_def heap_get_def np_empty_def np_full_def)
    have g: "heap_get ?h2 (length h) = Some (ArrayObj ?arr)"
      by (simp add: heap_get_def)
    have w: "wrap_operand (base_of v) bv = ?n"
      using bv by (simp add: wrap_operand_def)
    have sa: "heap_get ?h3 a = Some (InstanceObj v)"
      using assms(1) a by (simp add: heap_get_def nth_append)
    have so: "heap_get ?h3 (Suc (length h)) = Some (NDDataObj ?n)"
      by (simp add: heap_get_def nth_append)
    have run: "nd_arithmetic_st svc opr ?h3 a (Suc (length h))
                 = (Inr (length ?h3), ?h3 @ [InstanceObj res])"
      using nd_arithmetic_st_ok[OF sa so] assms(3) w by simp
    have "operator_st opr svc h a b = (Inr (length ?h3), ?h3 @ [InstanceObj res])"
      using assms(1) NumberArg f g run
      by (simp add: operator_st_def Let_def alloc_def NDData_new_def)
    then show ?thesis by (simp add: heap_get_def nth_append)
  next
    case (RefArg r)
    then obtain ob where ob: "heap_get h r = Some ob"
      using assms(2) by (cases "heap_get h r") (simp_all add: operand_of_def)
    let ?n = "wrap_operand (base_of v) bv"
    let ?h1 = "h @ [NDDataObj ?n]"
    have sa: "heap_get ?h1 a = Some (InstanceObj v)"
      using assms(1) a by (simp add: heap_get_def nth_append)
    have so: "heap_get ?h1 (length h) = Some (NDDataObj ?n)"
      by (simp add: heap_get_def)
    have run: "nd_arithmetic_st svc opr ?h1 a (length h)
                 = (Inr (length ?h1), ?h1 @ [InstanceObj res])"
      using nd_arithmetic_st_ok[OF sa so] assms(3) by simp
    have "operator_st opr svc h a b = (Inr (length ?h1), ?h1 @ [InstanceObj res])"
    proof (cases ob)
      case (ArrayObj arr)
      then have "bv = RawArray arr" using assms(2) RefArg ob by (simp add: operand_of_def)
      then show ?thesis
        using assms(1) RefArg ob ArrayObj run
        by (simp add: operator_st_def Let_def alloc_def NDData_new_def wrap_operand_def)
    next
      case (NDDataObj n)
      then have "bv = NDOperand n" using assms(2) RefArg ob by (simp add: operand_of_def)
      then show ?thesis
        using assms(1) RefArg ob NDDataObj run
        by (simp add: operator_st_def Let_def alloc_def NDData_new_def wrap_operand_def)
    next
      case (InstanceObj i)
      then have "bv = NDOperand (base_of i)" using assms(2) RefArg ob by (simp add: operand_of_def)
      then show ?thesis
        using assms(1) RefArg ob InstanceObj run
        by (simp add: operator_st_def Let_def alloc_def NDData_new_def wrap_operand_def)
    qed
    then show ?thesis by (simp add: heap_get_def nth_append)
  qed
qed

text \<open>
  C7. For every store, every instance \<open>a\<close> in it (of any of the three classes), every
  operator and every valid operand \<open>b\<close> (a number, or an array, an NDData or an
  instance of any class in the store whose data has the shape of \<open>a\<close>'s, with a unit
  that converts to \<open>a\<close>'s for \<open>+\<close> and \<open>-\<close>, and for which the services return an
  uncertainty and a mask): the operator returns a reference to an object that did not
  exist before, an instance of the class of \<open>a\<close> with the \<open>wcs\<close> of \<open>a\<close>; every
  object that existed before, \<open>a\<close> with its data, uncertainty, mask, unit and \<open>wcs\<close>
  among them, is as it was.
\<close>

theorem arithmetic_closure:
  assumes "heap_get h a = Some (InstanceObj v)" and "constructible v"
    and "operand_of h b = Some bv"
    and "shape (data (wrap_operand (base_of v) bv)) = shape (data (base_of v))"
    and "(opr = Add \<or> opr = Subtract)
           \<and> unit (wrap_operand (base_of v) bv) \<noteq> unit (base_of v) \<longrightarrow>
         unit_factor svc (unit (wrap_operand (base_of v) bv)) (unit (base_of v)) \<noteq> None"
    and "\<And>res. \<exists>u. propagate svc opr (base_of v) (wrap_operand (base_of v) bv) res = Inr u"
    and "\<exists>m. combine_mask svc (mask (base_of v)) (mask (wrap_operand (base_of v) bv)) = Inr m"
  shows "\<exists>r h' res. operator_st opr svc h a b = (Inr r, h')
           \<and> length h \<le> r \<and> heap_get h' r = Some (InstanceObj res)
           \<and> kind_of res = kind_of v \<and> wcs (base_of res) = wcs (base_of v)
           \<and> take (length h) h' = h
           \<and> heap_get h' a = Some (InstanceObj v)
           \<and> binary_op opr svc v bv = Inr res"
proof -
  obtain a0 where "construct (kind_of v) (base_of v) = Inr a0"
    using constructibleD[OF assms(2)] by blast
  from nd_arithmetic_ok[OF this assms(4) assms(5) assms(6) assms(7)]
  obtain res where res:
    "nd_arithmetic svc opr (kind_of v) (base_of v) (wrap_operand (base_of v) bv) = Inr res"
    "kind_of res = kind_of v" "wcs (base_of res) = wcs (base_of v)"
    by blast
  from operator_st_run[OF assms(1) assms(3) res(1)]
  obtain r h' where run: "operator_st opr svc h a b = (Inr r, h')" "length h \<le> r"
    "heap_get h' r = Some (InstanceObj res)" "take (length h) h' = h"
    by blast
  have a: "a < length h" "h ! a = InstanceObj v"
    using heap_get_SomeD[OF assms(1)] by simp_all
  have "r < length h'"
    using heap_get_SomeD[OF run(3)] by simp
  then have "a < length h'" using a(1) run(2) by simp
  moreover have "h' ! a = take (length h) h' ! a"
    using a(1) by simp
  ultimately have same: "heap_get h' a = Some (InstanceObj v)"
    using a(2) run(4) by (simp add: heap_get_def)
  have "binary_op opr svc v bv = Inr res"
    using res(1) by (simp add: binary_op_unfold)
  then show ?thesis
    using run res(2,3) same by blast
qed

text \<open>
  The spectrum minus an instance of another class: the result is a third object, a
  spectrum, and the two operands are as they were.
\<close>

theorem arithmetic_closure_witness:
  "\<exists>r h' res. operator_st Subtract ex_services ex_heap 0 (RefArg 1) = (Inr r, h')
     \<and> 2 \<le> r \<and> heap_get h' r = Some (InstanceObj res)
     \<and> kind_of res = Spectrum \<and> wcs (base_of res) = Some ex_wcs
     \<and> take 2 h' = ex_heap
     \<and> heap_get h' 0 = Some (InstanceObj (SpectrumData ex_spectrum))"
proof -
  have "\<exists>r h' res. operator_st Subtract ex_services ex_heap 0 (RefArg 1) = (Inr r, h')
           \<and> length ex_heap \<le> r \<and> heap_get h' r = Some (InstanceObj res)
           \<and> kind_of res = kind_of (SpectrumData ex_spectrum)
           \<and> wcs (base_of res) = wcs (base_of (SpectrumData ex_spectrum))
           \<and> take (length ex_heap) h' = ex_heap
           \<and> heap_get h' 0 = Some (InstanceObj (SpectrumData ex_spectrum))
           \<and> binary_op Subtract ex_services (SpectrumData ex_spectrum) (NDOperand ex_other)
               = Inr res"
    by (rule arithmetic_closure[OF _ ex_spectrum_constructible])
       (simp_all add: ex_heap_def heap_get_def operand_of_def wrap_operand_def base_of_def
          nddata.truncate_def ex_spectrum_def ex_other_def ex_services_def)
  moreover have "length ex_heap = 2" "kind_of (SpectrumData ex_spectrum) = Spectrum"
    "wcs (base_of (SpectrumData ex_spectrum)) = Some ex_wcs"
    by (simp_all add: ex_heap_def kind_of_def base_of_def nddata.truncate_def ex_spectrum_def)
  ultimately show ?thesis
    by (simp only:) blast
qed

lemma map2_replicate_right:
  "length xs = n \<Longrightarrow> map2 f xs (replicate n c) = map (\<lambda>x. f x c) xs"
  by (induction xs arbitrary: n) auto

text \<open>
  C9. For every instance \<open>a\<close> whose data array is well formed, with services that
  return an uncertainty and a mask for a number as operand: \<open>a + 0\<close> and \<open>a * 1\<close>
  return an instance with the data array of \<open>a\<close>. The numbers are real numbers, and
  the equality is exact.
\<close>

theorem arithmetic_identity:
  assumes "constructible a" and "well_formed (data (base_of a))"
    and "\<And>res. \<exists>u. propagate svc Add (base_of a)
                      (wrap_operand (base_of a) (Number 0)) res = Inr u"
    and "\<And>res. \<exists>u. propagate svc Multiply (base_of a)
                      (wrap_operand (base_of a) (Number 1)) res = Inr u"
    and "\<exists>m. combine_mask svc (mask (base_of a)) None = Inr m"
  shows "(\<exists>r. BaseData_add svc a (Number 0) = Inr r \<and> data (base_of r) = data (base_of a))
       \<and> (\<exists>r. BaseData_mul svc a (Number 1) = Inr r \<and> data (base_of r) = data (base_of a))"
proof -
  obtain a0 where a0: "construct (kind_of a) (base_of a) = Inr a0"
    using constructibleD[OF assms(1)] by blast
  have len: "length (flat (data (base_of a))) = size_of (shape (data (base_of a)))"
    using assms(2) by (simp add: well_formed_def)
  have w: "shape (data (wrap_operand (base_of a) (Number v))) = shape (data (base_of a))"
     "unit (wrap_operand (base_of a) (Number v)) = unit (base_of a)"
     "mask (wrap_operand (base_of a) (Number v)) = None"
     "flat (data (wrap_operand (base_of a) (Number v))) = replicate (size_of (shape (data (base_of a)))) v" for v
    by (simp_all add: wrap_operand_def np_full_def)
  have m: "\<exists>m. combine_mask svc (mask (base_of a)) (mask (wrap_operand (base_of a) (Number v))) = Inr m" for v
    using assms(5) w(3) by simp
  have "\<exists>r. nd_arithmetic svc Add (kind_of a) (base_of a) (wrap_operand (base_of a) (Number 0)) = Inr r
          \<and> kind_of r = kind_of a \<and> wcs (base_of r) = wcs (base_of a)
          \<and> data (base_of r) = NDArray (shape (data (base_of a)))
               (map2 (apply_op Add) (flat (data (base_of a)))
                     (flat (data (wrap_operand (base_of a) (Number 0)))))"
    by (rule nd_arithmetic_same_unit[OF a0 w(1) w(2) assms(3) m])
  then have 1: "\<exists>r. BaseData_add svc a (Number 0) = Inr r \<and> data (base_of r) = data (base_of a)"
    using len by (auto simp: BaseData_add_def w(4) map2_replicate_right apply_op_def)
  have "\<exists>r. nd_arithmetic svc Multiply (kind_of a) (base_of a) (wrap_operand (base_of a) (Number 1)) = Inr r
          \<and> kind_of r = kind_of a \<and> wcs (base_of r) = wcs (base_of a)
          \<and> data (base_of r) = NDArray (shape (data (base_of a)))
               (map2 (apply_op Multiply) (flat (data (base_of a)))
                     (flat (data (wrap_operand (base_of a) (Number 1)))))"
    by (rule nd_arithmetic_same_unit[OF a0 w(1) w(2) assms(4) m])
  then have 2: "\<exists>r. BaseData_mul svc a (Number 1) = Inr r \<and> data (base_of r) = data (base_of a)"
    using len by (auto simp: BaseData_mul_def w(4) map2_replicate_right apply_op_def)
  show ?thesis using 1 2 by blast
qed

theorem arithmetic_identity_witness:
  "constructible (SpectrumData ex_spectrum)
   \<and> well_formed (data (base_of (SpectrumData ex_spectrum)))
   \<and> (\<exists>r. BaseData_add ex_services (SpectrumData ex_spectrum) (Number 0) = Inr r
          \<and> data (base_of r) = NDArray [2] [2, 6])
   \<and> (\<exists>r. BaseData_mul ex_services (SpectrumData ex_spectrum) (Number 1) = Inr r
          \<and> data (base_of r) = NDArray [2] [2, 6])"
proof -
  have wf: "well_formed (data (base_of (SpectrumData ex_spectrum)))"
    by (simp add: well_formed_def size_of_def base_of_def nddata.truncate_def ex_spectrum_def)
  have d: "data (base_of (SpectrumData ex_spectrum)) = NDArray [2] [2, 6]"
    by (simp add: base_of_def nddata.truncate_def ex_spectrum_def)
  have "(\<exists>r. BaseData_add ex_services (SpectrumData ex_spectrum) (Number 0) = Inr r
          \<and> data (base_of r) = data (base_of (SpectrumData ex_spectrum)))
      \<and> (\<exists>r. BaseData_mul ex_services (SpectrumData ex_spectrum) (Number 1) = Inr r
          \<and> data (base_of r) = data (base_of (SpectrumData ex_spectrum)))"
    by (rule arithmetic_identity[OF ex_spectrum_constructible wf])
       (simp_all add: ex_services_def)
  then show ?thesis
    using ex_spectrum_constructible wf by (simp only: d)
qed

subsection \<open>SpectrumData.collapse\<close>

text \<open>
  Whenever \<open>collapse\<close> returns a spectrum, its mask is the masked array of the reduced
  uncertainty, whose numbers are also the array of its uncertainty.
\<close>

lemma collapse_mask_holds_uncertainty:
  assumes "collapse self method axis filter_mask = Inr s"
  shows "\<exists>m c. mask s = Some (ArrayMask m) \<and> uncertainty s = Some (Uncert c (ma_data m))"
proof -
  let ?fm = "map_option logical_not filter_mask"
  from assms obtain mdata where md: "masked_array (data self) ?fm = Inr mdata"
    by (cases "masked_array (data self) ?fm") (simp_all add: collapse_def bind_err_simps Let_def)
  from assms md obtain u where u: "uncertainty self = Some u"
    by (cases "uncertainty self") (simp_all add: collapse_def bind_err_simps Let_def)
  from assms md u obtain udata where ud: "masked_array (array u) ?fm = Inr udata"
    by (cases "masked_array (array u) ?fm") (simp_all add: collapse_def bind_err_simps Let_def)
  let ?red = "(if method = ''mean'' then
              bind_err (ma_mean mdata axis) (\<lambda>new_mdata.
              bind_err (ma_mean udata axis) (\<lambda>new_udata. Inr (new_mdata, new_udata)))
            else if method = ''median'' then
              bind_err (ma_median_method mdata axis) (\<lambda>new_mdata.
              bind_err (ma_median_method udata axis) (\<lambda>new_udata. Inr (new_mdata, new_udata)))
            else if method = ''sum'' then
              bind_err (ma_sum mdata axis) (\<lambda>new_mdata.
              bind_err (ma_sum udata axis) (\<lambda>new_udata. Inr (new_mdata, new_udata)))
            else Inl UnboundLocalError)"
  from assms md u ud obtain new where new: "?red = Inr new"
    by (cases ?red) (simp_all add: collapse_def bind_err_simps Let_def)
  let ?nd = "\<lparr> data = ma_data (fst new),
               uncertainty = Some (Uncert (uncertainty_class u) (ma_data (snd new))),
               mask = Some (ArrayMask (snd new)),
               wcs = wcs self, meta = meta self, unit = unit self \<rparr>"
  have s: "SpectrumData_init ?nd = Inr s"
    using assms md u ud new by (simp add: collapse_def bind_err_simps Let_def)
  have "nddata.truncate s = ?nd"
    using SpectrumData_init_same_shape[OF s, of ?nd] s by auto
  then have "mask s = mask ?nd" "uncertainty s = uncertainty ?nd"
    by (simp_all add: nddata.truncate_def nddata.iffs) 
  then show ?thesis by auto
qed

text \<open>The mean over the second axis of the spectrum of two samples of two values.\<close>

lemma up2: "[0..<2] = [0, Suc 0]" by (simp add: upt_rec)

lemma red_data: "ma_reduce f (Masked (NDArray [2, 2] [a, b, c, d]) (NDArray [2, 2] [False, False, False, False])) 1
   = Inr (Masked (NDArray [2] [f [a, b], f [c, d]]) (NDArray [2] [False, False]))"
  by (simp add: ma_reduce_def norm_axis_def ndim_def lanes_def kept_def bind_err_simps up2 Let_def)

lemma full22: "np_full [2, 2] False = NDArray [2, 2] [False, False, False, False]"
  by code_simp

lemma ex_collapse:
  "\<exists>s. collapse ex_spectrum2d ''mean'' 1 None = Inr s
     \<and> data s = NDArray [2] [3 / 2, 7 / 2]
     \<and> uncertainty s = Some (Uncert ''StdDevUncertainty'' (NDArray [2] [15, 40]))
     \<and> mask s = Some (ArrayMask (Masked (NDArray [2] [15, 40]) (NDArray [2] [False, False])))"
proof -
  have init: "\<exists>s. SpectrumData_init \<lparr> data = NDArray [2] xs, uncertainty = u, mask = m,
               wcs = Some ex_wcs, meta = [], unit = Some ''Jy'' \<rparr> = Inr s
            \<and> data s = NDArray [2] xs \<and> uncertainty s = u \<and> mask s = m" for xs u m
    by (simp add: SpectrumData_init_def ex_wcs_def py_last_def shape_at_def py_nth_def
      disp_unit_of_def wave_log_def cross_disp_def ndim_def bind_err_simps)
  have "collapse ex_spectrum2d ''mean'' 1 None =
     SpectrumData_init \<lparr> data = NDArray [2] [3 / 2, 7 / 2],
        uncertainty = Some (Uncert ''StdDevUncertainty'' (NDArray [2] [15, 40])),
        mask = Some (ArrayMask (Masked (NDArray [2] [15, 40]) (NDArray [2] [False, False]))),
        wcs = Some ex_wcs, meta = [], unit = Some ''Jy'' \<rparr>"
    by (simp add: collapse_def ex_spectrum2d_def masked_array_def full22 ma_mean_def red_data
      mean_of_def bind_err_simps)
  then show ?thesis using init by simp
qed

text \<open>
  C8. The spec: for the methods mean, median and sum, \<open>collapse\<close> returns a new
  spectrum. The code: with the method median the call \<open>mdata.median(axis=axis)\<close> looks
  up a method that masked arrays do not have, so for every spectrum with an uncertainty,
  every axis and the default filter mask, \<open>collapse\<close> raises AttributeError.
\<close>

theorem collapse_median_raises:
  "collapse (self\<lparr>uncertainty := Some u\<rparr>) ''median'' axis None = Inl AttributeError"
  by (simp add: collapse_def masked_array_def ma_median_method_def bind_err_simps)

end
